theory Spec2Isabelle
  imports Complex_Main "HOL-Library.Word"
begin

section \<open>JavaScript strings and values\<close>

text \<open>
  A JavaScript string is a sequence of UTF-16 code units; \<open>length\<close>, \<open>slice\<close>, \<open>trim\<close> and the
  regular expressions of the sources all work on code units.  \<open>js\<close> turns an ASCII literal
  of the sources into such a string.
\<close>

type_synonym jschar = "16 word"
type_synonym jsstring = "jschar list"

definition js :: "string \<Rightarrow> jsstring" where
  "js s = map of_char s"

text \<open>
  The characters removed by \<open>String.prototype.trim\<close> and matched by the regular expression
  class \<open>\s\<close>: ECMAScript's WhiteSpace and LineTerminator code points.
\<close>

definition isWhiteSpace :: "jschar \<Rightarrow> bool" where
  "isWhiteSpace c \<longleftrightarrow>
     c = 0x9 \<or> c = 0xA \<or> c = 0xB \<or> c = 0xC \<or> c = 0xD \<or> c = 0x20 \<or> c = 0xA0 \<or>
     c = 0x1680 \<or> (0x2000 \<le> c \<and> c \<le> 0x200A) \<or> c = 0x2028 \<or> c = 0x2029 \<or>
     c = 0x202F \<or> c = 0x205F \<or> c = 0x3000 \<or> c = 0xFEFF"

definition trimStart :: "jsstring \<Rightarrow> jsstring" where
  "trimStart s = dropWhile isWhiteSpace s"

definition trimEnd :: "jsstring \<Rightarrow> jsstring" where
  "trimEnd s = rev (dropWhile isWhiteSpace (rev s))"

definition trim :: "jsstring \<Rightarrow> jsstring" where
  "trim s = trimEnd (trimStart s)"

text \<open>\<open>s.endsWith(p)\<close>.\<close>

definition endsWith :: "jsstring \<Rightarrow> jsstring \<Rightarrow> bool" where
  "endsWith s p \<longleftrightarrow> length p \<le> length s \<and> drop (length s - length p) s = p"

text \<open>
  Case-insensitive prefix test against a lower-case ASCII pattern, as the regular expressions
  \<open>/^wss?:\/\//i\<close> and \<open>/^https?:\/\//i\<close> need it: without the \<open>u\<close> flag no code unit above
  127 is folded onto an ASCII letter.
\<close>

definition lowerAscii :: "jschar \<Rightarrow> jschar" where
  "lowerAscii c = (if 0x41 \<le> c \<and> c \<le> 0x5A then c + 0x20 else c)"

definition startsWithCI :: "jsstring \<Rightarrow> string \<Rightarrow> bool" where
  "startsWithCI t p \<longleftrightarrow> length p \<le> length t \<and> map lowerAscii (take (length p) t) = js p"

text \<open>
  The values \<open>JSON.parse\<close> and \<open>response.json()\<close> produce, with \<open>undefined\<close> added for a
  missing property.  A number is the value of the parsed double (only whether it is zero is
  ever inspected); an object is its list of own properties.
\<close>

datatype jsval =
    JUndefined
  | JNull
  | JBool bool
  | JNum rat
  | JStr jsstring
  | JArr "jsval list"
  | JObj "(jsstring \<times> jsval) list"

text \<open>ToBoolean, which \<open>!x\<close>, \<open>x || y\<close> and \<open>if (x)\<close> apply.\<close>

fun truthy :: "jsval \<Rightarrow> bool" where
  "truthy JUndefined = False"
| "truthy JNull = False"
| "truthy (JBool b) = b"
| "truthy (JNum n) = (n \<noteq> 0)"
| "truthy (JStr s) = (s \<noteq> [])"
| "truthy (JArr xs) = True"
| "truthy (JObj kvs) = True"

definition jsOr :: "jsval \<Rightarrow> jsval \<Rightarrow> jsval" where
  "jsOr a b = (if truthy a then a else b)"

text \<open>
  What a thrown value is.  \<open>Error v\<close> is \<open>new Error(v)\<close>, whose message is the string
  conversion of \<open>v\<close>; the others are raised by the engine or the browser.
\<close>

datatype jserror =
    Error jsval
  | TypeError
  | SyntaxError
  | URIError
  | InvalidStateError
  | NetworkError

text \<open>
  Property read \<open>v.k\<close>.  On \<open>null\<close> and \<open>undefined\<close> it throws a TypeError.  The sources
  read only the properties \<open>type\<close>, \<open>message\<close>, \<open>text\<close>, \<open>language\<close>, \<open>summary\<close>,
  \<open>beginning\<close>, \<open>ending\<close> and \<open>reservation_id\<close>, none of which a string, number, boolean or
  array has.
\<close>

definition nullish :: "jsval \<Rightarrow> bool" where
  "nullish v \<longleftrightarrow> v = JUndefined \<or> v = JNull"

fun field :: "jsval \<Rightarrow> jsstring \<Rightarrow> jsval" where
  "field (JObj kvs) k = (case map_of kvs k of None \<Rightarrow> JUndefined | Some v \<Rightarrow> v)"
| "field v k = JUndefined"

definition getprop :: "jsval \<Rightarrow> jsstring \<Rightarrow> jserror + jsval" where
  "getprop v k = (if nullish v then Inl TypeError else Inr (field v k))"

text \<open>Optional chaining \<open>v?.k\<close>.\<close>

definition optprop :: "jsval \<Rightarrow> jsstring \<Rightarrow> jsval" where
  "optprop v k = (if nullish v then JUndefined else field v k)"

text \<open>
  Text built by a template literal: literal pieces, the string conversion of a value
  (\<open>Val\<close>), and the message of a caught error (\<open>Msg\<close>).
\<close>

datatype part = Lit jsstring | Val jsval | Msg jserror

type_synonym template = "part list"

text \<open>A log line: the level that becomes the entry's class, and its text.  The time stamp
  that \<open>appendLog\<close> prefixes comes from the clock and is left out.\<close>

type_synonym logentry = "jsstring \<times> template"


section \<open>The browser\<close>

text \<open>
  The browser's \<open>URL\<close> class is not code of the repository.  A parsed URL is modelled by the
  components of the URL standard's URL record, for a URL with a host (every string the
  sources hand to \<open>new URL\<close> starts with \<open>ws://\<close>, \<open>wss://\<close>, \<open>http://\<close> or \<open>https://\<close>).
  The parser itself and the \<open>pathname\<close> setter are parameters of the model (fields of
  \<open>env\<close>); the \<open>protocol\<close> setter and the serializer are written out below.
\<close>

record url =
  url_scheme :: jsstring
  url_username :: jsstring
  url_password :: jsstring
  url_host :: jsstring
  url_port :: "nat option"
  url_pathname :: jsstring
  url_query :: "jsstring option"
  url_fragment :: "jsstring option"

definition protocol :: "url \<Rightarrow> jsstring" where
  "protocol u = url_scheme u @ js '':''"

definition isSpecialScheme :: "jsstring \<Rightarrow> bool" where
  "isSpecialScheme sch \<longleftrightarrow>
     sch = js ''ftp'' \<or> sch = js ''file'' \<or> sch = js ''http'' \<or> sch = js ''https'' \<or>
     sch = js ''ws'' \<or> sch = js ''wss''"

definition defaultPort :: "jsstring \<Rightarrow> nat option" where
  "defaultPort sch =
     (if sch = js ''ftp'' then Some 21
      else if sch = js ''http'' \<or> sch = js ''ws'' then Some 80
      else if sch = js ''https'' \<or> sch = js ''wss'' then Some 443
      else None)"

text \<open>
  Modelled from the URL standard: the \<open>protocol\<close> setter (the scheme state of the basic URL
  parser, run with a state override).  The sources assign only \<open>"ws:"\<close> and \<open>"wss:"\<close>, so
  the check that the new scheme is made of scheme characters, and its lower-casing, are left
  out.
\<close>

definition set_protocol :: "url \<Rightarrow> jsstring \<Rightarrow> url" where
  "set_protocol u v =
     (let buffer = takeWhile (\<lambda>c. c \<noteq> 0x3A) v in
      if isSpecialScheme (url_scheme u) \<noteq> isSpecialScheme buffer then u
      else if (url_username u \<noteq> [] \<or> url_password u \<noteq> [] \<or> url_port u \<noteq> None)
              \<and> buffer = js ''file'' then u
      else if url_scheme u = js ''file'' \<and> url_host u = [] then u
      else u\<lparr>url_scheme := buffer,
             url_port := (if url_port u = defaultPort buffer then None else url_port u)\<rparr>)"

function decimal :: "nat \<Rightarrow> jsstring" where
  "decimal n = (if n < 10 then [of_nat (48 + n)] else decimal (n div 10) @ [of_nat (48 + n mod 10)])"
  by pat_completeness auto
termination
  by (relation "measure id") auto

text \<open>Modelled from the URL standard: the URL serializer, which \<open>url.toString()\<close> returns.\<close>

definition URL_toString :: "url \<Rightarrow> jsstring" where
  "URL_toString u =
     url_scheme u @ js ''://''
     @ (if url_username u \<noteq> [] \<or> url_password u \<noteq> []
        then url_username u @ (if url_password u \<noteq> [] then js '':'' @ url_password u else [])
             @ js ''@''
        else [])
     @ url_host u
     @ (case url_port u of None \<Rightarrow> [] | Some p \<Rightarrow> js '':'' @ decimal p)
     @ url_pathname u
     @ (case url_query u of None \<Rightarrow> [] | Some q \<Rightarrow> js ''?'' @ q)
     @ (case url_fragment u of None \<Rightarrow> [] | Some f \<Rightarrow> js ''#'' @ f)"

text \<open>
  What the page's scripts get from their surroundings: \<open>window.location\<close>, the URL parser
  (\<open>None\<close> when \<open>new URL\<close> throws), the \<open>pathname\<close> setter, whether \<open>new WebSocket\<close>
  accepts a URL string (it throws a SyntaxError otherwise), and \<open>encodeURIComponent\<close>
  (\<open>None\<close> when it throws a URIError).
\<close>

record env =
  location_protocol :: jsstring
  location_hostname :: jsstring
  location_port :: jsstring
  location_origin :: jsstring
  URL_parse :: "jsstring \<Rightarrow> url option"
  set_pathname :: "url \<Rightarrow> jsstring \<Rightarrow> url"
  WebSocket_accepts :: "jsstring \<Rightarrow> bool"
  encodeURIComponent :: "jsval \<Rightarrow> jsstring option"

section \<open>docs/app.js: the socket client\<close>

text \<open>
  The part of the page that \<open>docs/app.js\<close>, the prompt-template variant of the socket
  client and the reservation client have in common: the elements they read and write, the
  variable \<open>latestText\<close> and \<open>window.localStorage\<close>.  \<open>backendAddressInput\<close> is \<open>None\<close> when
  the page has no such element.  A value assigned to \<open>textContent\<close> or \<open>value\<close> is kept as
  the JavaScript value assigned; the DOM shows its string conversion.
\<close>

record page =
  statusEl :: template
  logEl :: "logentry list"
  backendAddressInput :: "jsstring option"
  watchIdInput :: jsstring
  downloadButton_disabled :: bool
  copyButton_disabled :: bool
  fullText :: jsval
  latestText :: jsval
  localStorage :: "jsstring \<rightharpoonup> jsstring"

definition appendLog :: "template \<Rightarrow> string \<Rightarrow> 'a page_scheme \<Rightarrow> 'a page_scheme" where
  "appendLog message level s = s\<lparr>logEl := logEl s @ [(js level, message)]\<rparr>"

definition setStatus :: "template \<Rightarrow> 'a page_scheme \<Rightarrow> 'a page_scheme" where
  "setStatus message s =
     appendLog (Lit (js ''Frontend: '') # message) ''info''
       (s\<lparr>statusEl := Lit (js ''Status: '') # message\<rparr>)"

definition defaultSocketUrl :: "env \<Rightarrow> jsstring" where
  "defaultSocketUrl e =
     (let protocol = (if location_protocol e = js ''https:'' then js ''wss'' else js ''ws'') in
      protocol @ js ''://'' @ location_hostname e @ js '':''
      @ (if location_port e \<noteq> [] then location_port e else js ''8080'') @ js ''/ws'')"

text \<open>\<open>p.replace(/\/+$/, "")\<close>.\<close>

definition stripTrailingSlashes :: "jsstring \<Rightarrow> jsstring" where
  "stripTrailingSlashes p = rev (dropWhile (\<lambda>c. c = 0x2F) (rev p))"

text \<open>
  \<open>normalizeSocketUrl\<close> (the same text in \<open>docs/app.js\<close> and in the prompt-template
  variant).  The \<open>try\<close> block is the \<open>case\<close>: the only thing in it that can throw is
  \<open>new URL\<close>, and the \<open>catch\<close> is the \<open>None\<close> branch.
\<close>

definition normalizeSocketUrl :: "env \<Rightarrow> jsstring \<Rightarrow> 'a page_scheme \<Rightarrow> jsstring \<times> 'a page_scheme" where
  "normalizeSocketUrl e v s =
     (let trimmed = trim v in
      if trimmed = [] then (defaultSocketUrl e, s)
      else
        case (if startsWithCI trimmed ''ws://'' \<or> startsWithCI trimmed ''wss://''
              then URL_parse e trimmed
              else if startsWithCI trimmed ''http://'' \<or> startsWithCI trimmed ''https://''
              then (case URL_parse e trimmed of
                      None \<Rightarrow> None
                    | Some url \<Rightarrow>
                        Some (set_protocol url
                               (if protocol url = js ''https:'' then js ''wss:'' else js ''ws:'')))
              else URL_parse e
                     ((if location_protocol e = js ''https:'' then js ''wss:'' else js ''ws:'')
                      @ js ''//'' @ trimmed)) of
          None \<Rightarrow>
            (defaultSocketUrl e,
             appendLog [Lit (js ''Frontend: Invalid backend address provided, using default.'')]
               ''warn'' s)
        | Some url \<Rightarrow>
            (URL_toString
               (if url_pathname url = [] \<or> url_pathname url = js ''/''
                then set_pathname e url (js ''/ws'')
                else if \<not> endsWith (url_pathname url) (js ''/ws'')
                then set_pathname e url (stripTrailingSlashes (url_pathname url) @ js ''/ws'')
                else url),
             s))"


text \<open>
  WebSockets.  Every socket the page has created is kept in \<open>sockets\<close>, in creation order,
  since the listeners of a replaced socket stay attached to it; the variable \<open>socket\<close> is an
  index into that list (\<open>None\<close>: still undefined).  \<open>onceOpen\<close> holds the watch ids captured
  by the \<open>{ once: true }\<close> open listeners not yet fired, \<open>sent\<close> the values whose
  \<open>JSON.stringify\<close> text was handed to \<open>send\<close>.
\<close>

datatype ready_state = CONNECTING | OPEN | CLOSING | CLOSED

record websocket =
  ws_url :: jsstring
  readyState :: ready_state
  onceOpen :: "jsstring list"
  sent :: "jsval list"

record app = page +
  summaryBeginning :: jsval
  summaryEnding :: jsval
  sockets :: "websocket list"
  socket :: "nat option"

definition isOpen :: "websocket list \<Rightarrow> nat \<Rightarrow> bool" where
  "isOpen wss i \<longleftrightarrow> i < length wss \<and> readyState (wss ! i) = OPEN"

text \<open>
  \<open>connectSocket\<close>.  The result is the socket returned, or \<open>None\<close> when \<open>new WebSocket\<close>
  throws (the variable \<open>socket\<close> is then not assigned).
\<close>

definition connectSocket :: "env \<Rightarrow> app \<Rightarrow> nat option \<times> app" where
  "connectSocket e s =
     (if (case socket s of None \<Rightarrow> False | Some i \<Rightarrow> isOpen (sockets s) i) then (socket s, s)
      else
        let (socketUrl, s1) =
              normalizeSocketUrl e (case backendAddressInput s of None \<Rightarrow> [] | Some v \<Rightarrow> v) s
        in if \<not> WebSocket_accepts e socketUrl then (None, s1)
           else (Some (length (sockets s1)),
                 s1\<lparr>sockets := sockets s1 @
                       [\<lparr>ws_url = socketUrl, readyState = CONNECTING, onceOpen = [], sent = []\<rparr>],
                     socket := Some (length (sockets s1))\<rparr>))"

text \<open>The \<open>message\<close> listener that \<open>connectSocket\<close> attaches; its argument is what
  \<open>JSON.parse(event.data)\<close> gives, \<open>None\<close> when that throws.  A frame that parses to \<open>null\<close>
  makes \<open>data.type\<close> throw, which ends the listener.\<close>

definition messageListener :: "jsval option \<Rightarrow> app \<Rightarrow> app" where
  "messageListener parsed s =
     (case parsed of
        None \<Rightarrow> appendLog [Lit (js ''Frontend: Received non-JSON message.'')] ''error'' s
      | Some data \<Rightarrow>
          if nullish data then s
          else if field data (js ''type'') = JStr (js ''log'') then
            appendLog [Lit (js ''Backend: ''), Val (field data (js ''message''))] ''info'' s
          else if field data (js ''type'') = JStr (js ''error'') then
            (let s1 = appendLog [Lit (js ''Backend error: ''), Val (field data (js ''message''))]
                        ''error'' s;
                 s2 = setStatus [Lit (js ''Error'')] s1
             in s2\<lparr>downloadButton_disabled := False\<rparr>)
          else if field data (js ''type'') = JStr (js ''result'') then
            (let text = jsOr (field data (js ''text'')) (JStr []);
                 s1 = s\<lparr>latestText := text,
                         summaryBeginning :=
                           jsOr (optprop (field data (js ''summary'')) (js ''beginning'')) (JStr []),
                         summaryEnding :=
                           jsOr (optprop (field data (js ''summary'')) (js ''ending'')) (JStr []),
                         fullText := text,
                         copyButton_disabled := (\<not> truthy text)\<rparr>;
                 s2 = setStatus [Lit (js ''Completed (language: ''),
                                 Val (jsOr (field data (js ''language'')) (JStr (js ''unknown''))),
                                 Lit (js '')'')] s1;
                 s3 = s2\<lparr>downloadButton_disabled := False\<rparr>
             in appendLog [Lit (js ''Frontend: Results loaded into the UI.'')] ''info'' s3)
          else s)"

definition closeListener :: "app \<Rightarrow> app" where
  "closeListener s = appendLog [Lit (js ''Frontend: WebSocket connection closed.'')] ''warn'' s"

definition errorListener :: "app \<Rightarrow> app" where
  "errorListener s = appendLog [Lit (js ''Frontend: WebSocket error.'')] ''error'' s"

definition sanitizeWatchId :: "jsstring \<Rightarrow> jsstring" where
  "sanitizeWatchId v = (let trimmed = trim v in if trimmed = [] then [] else trimmed)"

text \<open>The object the click handler serializes and sends.\<close>

definition startCommand :: "jsstring \<Rightarrow> jsval" where
  "startCommand watchId =
     JObj [(js ''action'', JStr (js ''download'')), (js ''watch_id'', JStr watchId)]"

text \<open>
  \<open>ws.send(data)\<close>: an InvalidStateError while the socket is connecting, the frame is
  queued when it is open, and silently dropped when it is closing or closed.
\<close>

definition send :: "nat \<Rightarrow> jsval \<Rightarrow> websocket list \<Rightarrow> jserror + websocket list" where
  "send i frame wss =
     (if i < length wss then
        (case readyState (wss ! i) of
           CONNECTING \<Rightarrow> Inl InvalidStateError
         | OPEN \<Rightarrow> Inr (wss[i := (wss ! i)\<lparr>sent := sent (wss ! i) @ [frame]\<rparr>])
         | CLOSING \<Rightarrow> Inr wss
         | CLOSED \<Rightarrow> Inr wss)
      else Inl TypeError)"

text \<open>The two statements that the once-only open listener and the \<open>if\<close> at the end of the
  click handler share: send the start command, then log it.\<close>

definition sendDownloadRequest :: "nat \<Rightarrow> jsstring \<Rightarrow> app \<Rightarrow> app" where
  "sendDownloadRequest ws watchId s =
     (case send ws (startCommand watchId) (sockets s) of
        Inl err \<Rightarrow> s
      | Inr wss \<Rightarrow>
          appendLog [Lit (js ''Frontend: Sent download request for ''), Lit watchId, Lit (js ''.'')]
            ''info'' (s\<lparr>sockets := wss\<rparr>))"

definition addOnceOpen :: "nat \<Rightarrow> jsstring \<Rightarrow> app \<Rightarrow> app" where
  "addOnceOpen ws watchId s =
     s\<lparr>sockets := (sockets s)[ws := (sockets s ! ws)\<lparr>onceOpen := onceOpen (sockets s ! ws) @ [watchId]\<rparr>]\<rparr>"

text \<open>The click listener of \<open>downloadButton\<close>.\<close>

definition downloadButton_click :: "env \<Rightarrow> app \<Rightarrow> app" where
  "downloadButton_click e s =
     (let watchId = sanitizeWatchId (watchIdInput s) in
      if watchId = [] then setStatus [Lit (js ''Please enter a watch ID or URL'')] s
      else
        let s1 = s\<lparr>summaryBeginning := JStr (js ''Downloading...''),
                    summaryEnding := JStr (js ''Downloading...''),
                    fullText := JStr [],
                    latestText := JStr [],
                    copyButton_disabled := True,
                    downloadButton_disabled := True\<rparr>;
            s2 = setStatus [Lit (js ''Requesting subtitles...'')] s1
        in case connectSocket e s2 of
             (None, s3) \<Rightarrow> s3
           | (Some ws, s3) \<Rightarrow>
               (let s4 = addOnceOpen ws watchId s3 in
                if isOpen (sockets s4) ws then sendDownloadRequest ws watchId s4 else s4))"

text \<open>
  What the browser does with a socket: it fires \<open>open\<close> once, when a connecting socket
  becomes open (first the listener of \<open>connectSocket\<close>, then the once-only listeners in the
  order they were added); it delivers a \<open>message\<close> only to an open socket; \<open>close\<close> makes the
  socket closed; \<open>error\<close> leaves the state to the \<open>close\<close> that follows it.
\<close>

datatype socket_event = WsOpen | WsMessage "jsval option" | WsClose | WsError

definition socketEvent :: "nat \<Rightarrow> socket_event \<Rightarrow> app \<Rightarrow> app" where
  "socketEvent i ev s =
     (if i < length (sockets s) then
        (case ev of
           WsOpen \<Rightarrow>
             if readyState (sockets s ! i) = CONNECTING then
               (let pending = onceOpen (sockets s ! i);
                    s1 = s\<lparr>sockets := (sockets s)[i := (sockets s ! i)\<lparr>readyState := OPEN, onceOpen := []\<rparr>]\<rparr>;
                    s2 = appendLog [Lit (js ''Frontend: WebSocket connection established.'')] ''info'' s1
                in fold (sendDownloadRequest i) pending s2)
             else s
         | WsMessage parsed \<Rightarrow>
             if readyState (sockets s ! i) = OPEN then messageListener parsed s else s
         | WsClose \<Rightarrow>
             if readyState (sockets s ! i) \<noteq> CLOSED then
               closeListener (s\<lparr>sockets := (sockets s)[i := (sockets s ! i)\<lparr>readyState := CLOSED\<rparr>]\<rparr>)
             else s
         | WsError \<Rightarrow> errorListener s)
      else s)"

text \<open>
  \<open>copyToClipboard\<close>, run to its end in one step.  What the clipboard does is given by the
  outcome: \<open>navigator.clipboard.writeText\<close> succeeds, or it fails and \<open>document.execCommand\<close>
  returns (true or false, which this client does not distinguish) or throws.
\<close>

datatype copy_outcome = ClipboardWritten | ExecCommandTrue | ExecCommandFalse | ExecCommandThrew

definition copyToClipboard :: "copy_outcome \<Rightarrow> jsval \<Rightarrow> 'a page_scheme \<Rightarrow> 'a page_scheme" where
  "copyToClipboard outcome text s =
     (if \<not> truthy text then s
      else
        case outcome of
          ClipboardWritten \<Rightarrow>
            setStatus [Lit (js ''Copied to clipboard'')]
              (appendLog [Lit (js ''Frontend: Copied subtitles using Clipboard API.'')] ''info'' s)
        | ExecCommandThrew \<Rightarrow>
            setStatus [Lit (js ''Copy failed'')]
              (appendLog [Lit (js ''Frontend: Failed to copy subtitles.'')] ''error''
                 (appendLog [Lit (js ''Frontend: Clipboard API failed, falling back to execCommand.'')]
                    ''warn'' s))
        | returned \<Rightarrow>
            setStatus [Lit (js ''Copied to clipboard'')]
              (appendLog [Lit (js ''Frontend: Copied subtitles using execCommand.'')] ''info''
                 (appendLog [Lit (js ''Frontend: Clipboard API failed, falling back to execCommand.'')]
                    ''warn'' s)))"

text \<open>The persistence of the backend address: the statements run when the script loads, and
  the \<open>change\<close> listener.\<close>

definition restoreBackendAddress :: "'a page_scheme \<Rightarrow> 'a page_scheme" where
  "restoreBackendAddress s =
     (case backendAddressInput s of
        None \<Rightarrow> s
      | Some v \<Rightarrow>
          (case localStorage s (js ''backendAddress'') of
             None \<Rightarrow> s
           | Some saved \<Rightarrow> if saved \<noteq> [] then s\<lparr>backendAddressInput := Some saved\<rparr> else s))"

definition backendAddress_change :: "'a page_scheme \<Rightarrow> 'a page_scheme" where
  "backendAddress_change s =
     (case backendAddressInput s of
        None \<Rightarrow> s
      | Some v \<Rightarrow>
          (let val = trim v in
           if val \<noteq> [] then s\<lparr>localStorage := (localStorage s)(js ''backendAddress'' \<mapsto> val)\<rparr>
           else s\<lparr>localStorage := (localStorage s)(js ''backendAddress'' := None)\<rparr>))"

text \<open>
  The events of a session of the page: a click on the download button or on the copy
  button, which a disabled button does not receive; the user's input to the watch id field;
  a changed backend address (on a page that has the field); and the events of the sockets.
\<close>

datatype app_event =
    Click
  | Typed jsstring
  | Address jsstring
  | Copy copy_outcome
  | Socket nat socket_event

definition app_step :: "env \<Rightarrow> app_event \<Rightarrow> app \<Rightarrow> app" where
  "app_step e ev s =
     (case ev of
        Click \<Rightarrow> if downloadButton_disabled s then s else downloadButton_click e s
      | Typed v \<Rightarrow> s\<lparr>watchIdInput := v\<rparr>
      | Address v \<Rightarrow>
          (case backendAddressInput s of
             None \<Rightarrow> s
           | Some old \<Rightarrow> backendAddress_change (s\<lparr>backendAddressInput := Some v\<rparr>))
      | Copy outcome \<Rightarrow>
          if copyButton_disabled s then s else copyToClipboard outcome (latestText s) s
      | Socket i sev \<Rightarrow> socketEvent i sev s)"

definition app_run :: "env \<Rightarrow> app_event list \<Rightarrow> app \<Rightarrow> app" where
  "app_run e evs s = fold (app_step e) evs s"

text \<open>The statements the script runs when it is loaded, after the listeners are in place.\<close>

definition app_load :: "app \<Rightarrow> app" where
  "app_load s = setStatus [Lit (js ''Idle'')] (restoreBackendAddress s)"


section \<open>The reservation client\<close>

text \<open>
  The client of the reservation, event stream and result endpoints.  Beside the common
  part of the page it has the prompt elements (\<open>None\<close> when the page lacks them).  \<open>calls\<close>
  is not a variable of the script: it records, in order, the network operations the script
  starts, so that their order can be stated.  The completion modal is left out: the script
  only writes its texts and classes and never reads them.  The listeners of the two copy
  buttons are left out as well: they write to the clipboard, the log and the status only.
\<close>

datatype call =
    Fetch jsstring jsstring "jsval option"
  | NewEventSource jsstring
  | CloseEventSource

record reservation_page = page +
  copyPromptButton_disabled :: "bool option"
  promptTemplateInput :: "jsstring option"
  calls :: "call list"

text \<open>
  The backend as one request cycle sees it: what \<open>fetch\<close> settles to for a method, URL and
  body (\<open>Inl\<close>: it rejects), and the events the event source of a URL dispatches, in order.
  \<open>json_body\<close> is what \<open>response.json()\<close> resolves to, \<open>None\<close> when it rejects.
\<close>

record response =
  status :: nat
  json_body :: "jsval option"

definition ok :: "response \<Rightarrow> bool" where
  "ok r \<longleftrightarrow> 200 \<le> status r \<and> status r \<le> 299"

text \<open>
  An event of the stream, with what \<open>JSON.parse(event.data)\<close> gives (\<open>None\<close> when it
  throws).  \<open>SseError\<close> is an event of type \<open>error\<close>: one the backend sends under that name,
  or the one the browser fires when the connection fails, which has no data.
\<close>

datatype sse = SseOpen | SseLog "jsval option" | SseError "jsval option" | SseCompleted

record backend =
  fetch :: "jsstring \<Rightarrow> jsstring \<Rightarrow> jsval option \<Rightarrow> jserror + response"
  eventStream :: "jsstring \<Rightarrow> sse list"

definition defaultBackendAddress :: "env \<Rightarrow> jsstring" where
  "defaultBackendAddress e = location_origin e"

text \<open>\<open>s.replace(/\/$/, "")\<close>.\<close>

definition removeTrailingSlash :: "jsstring \<Rightarrow> jsstring" where
  "removeTrailingSlash s = (if s \<noteq> [] \<and> last s = 0x2F then butlast s else s)"

definition normalizeBackendBaseUrl ::
    "env \<Rightarrow> jsstring \<Rightarrow> 'a page_scheme \<Rightarrow> jsstring \<times> 'a page_scheme" where
  "normalizeBackendBaseUrl e v s =
     (let trimmed = trim v in
      if trimmed = [] then (defaultBackendAddress e, s)
      else
        case (if startsWithCI trimmed ''http://'' \<or> startsWithCI trimmed ''https://''
              then URL_parse e trimmed
              else URL_parse e
                     ((if location_protocol e = js ''https:'' then js ''https:'' else js ''http:'')
                      @ js ''//'' @ trimmed)) of
          None \<Rightarrow>
            (defaultBackendAddress e,
             appendLog [Lit (js ''Frontend: Invalid backend address provided, using default.'')]
               ''warn'' s)
        | Some url \<Rightarrow> (removeTrailingSlash (URL_toString url), s))"

definition buildEndpointUrl :: "jsstring \<Rightarrow> jsstring \<Rightarrow> jsstring" where
  "buildEndpointUrl baseUrl endpoint =
     (let cleaned = dropWhile (\<lambda>c. c = 0x2F) endpoint in baseUrl @ js ''/'' @ cleaned)"

text \<open>The result of an \<open>async\<close> function is \<open>Inl\<close> the error it rejects with or \<open>Inr\<close> the
  value it resolves to.\<close>

definition createReservation ::
    "backend \<Rightarrow> jsstring \<Rightarrow> jsstring \<Rightarrow> reservation_page \<Rightarrow> (jserror + jsval) \<times> reservation_page" where
  "createReservation b baseUrl watchId s =
     (let url = buildEndpointUrl baseUrl (js ''reservation'');
          body = JObj [(js ''watch_id'', JStr watchId)];
          s1 = s\<lparr>calls := calls s @ [Fetch (js ''POST'') url (Some body)]\<rparr>
      in case fetch b (js ''POST'') url (Some body) of
           Inl err \<Rightarrow> (Inl err, s1)
         | Inr response \<Rightarrow>
             (let payload = (case json_body response of None \<Rightarrow> JObj [] | Some p \<Rightarrow> p) in
              if \<not> ok response then
                (if nullish payload then (Inl TypeError, s1)
                 else (Inl (Error (jsOr (field payload (js ''message''))
                                     (JStr (js ''Failed to create reservation.'')))), s1))
              else if nullish payload then (Inl TypeError, s1)
              else if \<not> truthy (field payload (js ''reservation_id'')) then
                (Inl (Error (JStr (js ''Backend did not return a reservation ID.''))), s1)
              else (Inr (field payload (js ''reservation_id'')), s1)))"

text \<open>
  \<open>waitForEvents\<close>.  The promise is \<open>settled\<close>: \<open>None\<close> while pending, then the first
  outcome given to \<open>resolve\<close> (\<open>Inr ()\<close>) or \<open>reject\<close>; a later \<open>resolve\<close> or \<open>reject\<close> does
  nothing.  A closed event source dispatches no further event.
\<close>

record wait_state =
  page_state :: reservation_page
  closed :: bool
  settled :: "(jserror + unit) option"

definition settle :: "jserror + unit \<Rightarrow> wait_state \<Rightarrow> wait_state" where
  "settle r w = (case settled w of None \<Rightarrow> w\<lparr>settled := Some r\<rparr> | Some r0 \<Rightarrow> w)"

definition eventSource_close :: "wait_state \<Rightarrow> wait_state" where
  "eventSource_close w =
     w\<lparr>closed := True, page_state := (page_state w)\<lparr>calls := calls (page_state w) @ [CloseEventSource]\<rparr>\<rparr>"

definition openListener :: "wait_state \<Rightarrow> wait_state" where
  "openListener w =
     w\<lparr>page_state := appendLog [Lit (js ''Frontend: Event stream connected.'')] ''info'' (page_state w)\<rparr>"

definition logListener :: "jsval option \<Rightarrow> wait_state \<Rightarrow> wait_state" where
  "logListener parsed w =
     (case parsed of
        None \<Rightarrow>
          w\<lparr>page_state := appendLog [Lit (js ''Frontend: Received invalid log event payload.'')]
                             ''warn'' (page_state w)\<rparr>
      | Some data \<Rightarrow>
          if nullish data then w
          else w\<lparr>page_state := appendLog [Lit (js ''Backend: ''),
                                           Val (jsOr (field data (js ''message'')) (JStr []))]
                                  ''info'' (page_state w)\<rparr>)"

text \<open>The listener added for \<open>error\<close> events.  When the data parses to \<open>null\<close>,
  \<open>data.message\<close> throws after the stream has been closed and before \<open>reject\<close> is reached.\<close>

definition errorEventListener :: "jsval option \<Rightarrow> wait_state \<Rightarrow> wait_state" where
  "errorEventListener parsed w =
     (let data = (case parsed of None \<Rightarrow> JObj [] | Some d \<Rightarrow> d);
          w1 = eventSource_close w
      in if nullish data then w1
         else settle (Inl (Error (jsOr (field data (js ''message''))
                                     (JStr (js ''Stream error from backend.''))))) w1)"

definition completedListener :: "wait_state \<Rightarrow> wait_state" where
  "completedListener w = settle (Inr ()) (eventSource_close w)"

definition onerror :: "wait_state \<Rightarrow> wait_state" where
  "onerror w =
     settle (Inl (Error (JStr (js ''Failed to connect to event stream.'')))) (eventSource_close w)"

text \<open>One event of the stream: nothing once the source is closed; an \<open>error\<close> event runs the
  listener added first and then the \<open>onerror\<close> handler.\<close>

definition dispatch :: "sse \<Rightarrow> wait_state \<Rightarrow> wait_state" where
  "dispatch ev w =
     (if closed w then w
      else case ev of
             SseOpen \<Rightarrow> openListener w
           | SseLog parsed \<Rightarrow> logListener parsed w
           | SseError parsed \<Rightarrow> onerror (errorEventListener parsed w)
           | SseCompleted \<Rightarrow> completedListener w)"

text \<open>The first component of the result is the settled promise, \<open>None\<close> when the stream
  ends without settling it (the \<open>await\<close> then never returns).  A URIError thrown in the
  executor rejects the promise before an event source exists.\<close>

definition waitForEvents ::
    "env \<Rightarrow> backend \<Rightarrow> jsstring \<Rightarrow> jsval \<Rightarrow> reservation_page
       \<Rightarrow> (jserror + unit) option \<times> reservation_page" where
  "waitForEvents e b baseUrl reservationId s =
     (case encodeURIComponent e reservationId of
        None \<Rightarrow> (Some (Inl URIError), s)
      | Some enc \<Rightarrow>
          (let eventsUrl = buildEndpointUrl baseUrl (js ''events/'' @ enc);
               w0 = \<lparr>page_state = s\<lparr>calls := calls s @ [NewEventSource eventsUrl]\<rparr>,
                     closed = False, settled = None\<rparr>;
               w = fold dispatch (eventStream b eventsUrl) w0
           in (settled w, page_state w)))"

definition fetchResult ::
    "env \<Rightarrow> backend \<Rightarrow> jsstring \<Rightarrow> jsval \<Rightarrow> reservation_page
       \<Rightarrow> (jserror + jsval) \<times> reservation_page" where
  "fetchResult e b baseUrl reservationId s =
     (case encodeURIComponent e reservationId of
        None \<Rightarrow> (Inl URIError, s)
      | Some enc \<Rightarrow>
          (let url = buildEndpointUrl baseUrl (js ''result/'' @ enc);
               s1 = s\<lparr>calls := calls s @ [Fetch (js ''GET'') url None]\<rparr>
           in case fetch b (js ''GET'') url None of
                Inl err \<Rightarrow> (Inl err, s1)
              | Inr response \<Rightarrow>
                  (let payload = (case json_body response of None \<Rightarrow> JObj [] | Some p \<Rightarrow> p) in
                   if \<not> ok response then
                     (if nullish payload then (Inl TypeError, s1)
                      else (Inl (Error (jsOr (field payload (js ''message''))
                                          (JStr (js ''Failed to fetch result.'')))), s1))
                   else (Inr payload, s1))))"

text \<open>The \<open>catch\<close> and \<open>finally\<close> blocks of the click handler, and the statements of its
  \<open>try\<close> block after the result has been fetched.\<close>

definition catchBlock :: "jserror \<Rightarrow> reservation_page \<Rightarrow> reservation_page" where
  "catchBlock error s =
     setStatus [Lit (js ''Error'')]
       (appendLog [Lit (js ''Backend error: ''), Msg error] ''error'' s)"

definition finallyBlock :: "reservation_page \<Rightarrow> reservation_page" where
  "finallyBlock s = s\<lparr>downloadButton_disabled := False\<rparr>"

definition showResult :: "jsval \<Rightarrow> reservation_page \<Rightarrow> reservation_page" where
  "showResult data s =
     (if nullish data then catchBlock TypeError s
      else
        let text = jsOr (field data (js ''text'')) (JStr []);
            s1 = s\<lparr>latestText := text,
                    fullText := text,
                    copyButton_disabled := (\<not> truthy text),
                    copyPromptButton_disabled :=
                      (case copyPromptButton_disabled s of
                         None \<Rightarrow> None
                       | Some d \<Rightarrow> Some (\<not> truthy text))\<rparr>;
            s2 = setStatus [Lit (js ''Completed (language: ''),
                            Val (jsOr (field data (js ''language'')) (JStr (js ''unknown''))),
                            Lit (js '')'')] s1
        in appendLog [Lit (js ''Frontend: Results loaded into the UI.'')] ''info'' s2)"

text \<open>
  The click listener of \<open>downloadButton\<close>, an \<open>async\<close> function.  The state returned is the
  one in which the handler has finished, or, when the promise of \<open>waitForEvents\<close> never
  settles, the one in which it stays suspended.
\<close>

definition reservation_click :: "env \<Rightarrow> backend \<Rightarrow> reservation_page \<Rightarrow> reservation_page" where
  "reservation_click e b s =
     (let watchId = sanitizeWatchId (watchIdInput s) in
      if watchId = [] then setStatus [Lit (js ''Please enter a watch ID or URL'')] s
      else
        let s1 = s\<lparr>fullText := JStr [],
                    latestText := JStr [],
                    copyButton_disabled := True,
                    copyPromptButton_disabled :=
                      (case copyPromptButton_disabled s of None \<Rightarrow> None | Some d \<Rightarrow> Some True),
                    downloadButton_disabled := True\<rparr>;
            (baseUrl, s2) =
              normalizeBackendBaseUrl e (case backendAddressInput s1 of None \<Rightarrow> [] | Some v \<Rightarrow> v) s1;
            s3 = setStatus [Lit (js ''Creating reservation...'')] s2
        in case createReservation b baseUrl watchId s3 of
             (Inl err, s4) \<Rightarrow> finallyBlock (catchBlock err s4)
           | (Inr reservationId, s4) \<Rightarrow>
               (let s5 = appendLog [Lit (js ''Frontend: Reservation created (''), Val reservationId,
                                    Lit (js '').'')] ''info'' s4;
                    s6 = setStatus [Lit (js ''Waiting for backend events...'')] s5
                in case waitForEvents e b baseUrl reservationId s6 of
                     (None, s7) \<Rightarrow> s7
                   | (Some (Inl err), s7) \<Rightarrow> finallyBlock (catchBlock err s7)
                   | (Some (Inr u), s7) \<Rightarrow>
                       (let s8 = setStatus [Lit (js ''Fetching final subtitle result...'')] s7 in
                        case fetchResult e b baseUrl reservationId s8 of
                          (Inl err, s9) \<Rightarrow> finallyBlock (catchBlock err s9)
                        | (Inr data, s9) \<Rightarrow> finallyBlock (showResult data s9))))"

text \<open>Persistence in the variants with a prompt template: the statements run when the
  script loads, and the listeners of the two fields.  The backend address field falls back
  to \<open>defaultBackendAddress()\<close>.\<close>

definition defaultPromptTemplate :: jsstring where
  "defaultPromptTemplate =
     js ''Turn the following audio transcription into a blog post in English.\<newline>----\<newline>\<newline>{{URL}}\<newline>\<newline>''"

definition restoreBackendAddressOrDefault :: "env \<Rightarrow> 'a page_scheme \<Rightarrow> 'a page_scheme" where
  "restoreBackendAddressOrDefault e s =
     (case backendAddressInput s of
        None \<Rightarrow> s
      | Some v \<Rightarrow>
          (case localStorage s (js ''backendAddress'') of
             None \<Rightarrow> s\<lparr>backendAddressInput := Some (defaultBackendAddress e)\<rparr>
           | Some saved \<Rightarrow>
               if saved \<noteq> [] then s\<lparr>backendAddressInput := Some saved\<rparr>
               else s\<lparr>backendAddressInput := Some (defaultBackendAddress e)\<rparr>))"

definition restorePromptTemplate :: "reservation_page \<Rightarrow> reservation_page" where
  "restorePromptTemplate s =
     (case promptTemplateInput s of
        None \<Rightarrow> s
      | Some v \<Rightarrow>
          (if (case localStorage s (js ''promptTemplate'') of None \<Rightarrow> False | Some t \<Rightarrow> t \<noteq> [])
           then s\<lparr>promptTemplateInput := localStorage s (js ''promptTemplate'')\<rparr>
           else s\<lparr>promptTemplateInput := Some defaultPromptTemplate,
                  localStorage := (localStorage s)(js ''promptTemplate'' \<mapsto> defaultPromptTemplate)\<rparr>))"


definition reservation_load :: "env \<Rightarrow> reservation_page \<Rightarrow> reservation_page" where
  "reservation_load e s =
     setStatus [Lit (js ''Idle'')] (restorePromptTemplate (restoreBackendAddressOrDefault e s))"


section \<open>The socket client with a subtitle preview\<close>

text \<open>
  The socket client that connects to \<open>ws://localhost:8765\<close> and computes the preview of the
  subtitles itself.  Its names differ from those of the other clients; where they coincide
  (\<open>statusEl\<close>, \<open>socket\<close>) the fields carry a prime.  \<open>statusEl'\<close> is only ever given
  strings; \<open>logArea\<close> grows by one line per \<open>appendLog\<close>.
\<close>

record preview_page =
  statusEl' :: jsstring
  logArea :: template
  downloadBtn_disabled :: bool
  copyBtn_disabled :: bool
  videoIdInput :: jsstring
  languageEl :: jsval
  subtitleStart :: jsstring
  subtitleEnd :: jsstring
  fullSubtitle :: jsval
  sockets' :: "websocket list"
  socket' :: "nat option"

definition appendLog' :: "template \<Rightarrow> preview_page \<Rightarrow> preview_page" where
  "appendLog' line s = s\<lparr>logArea := logArea s @ line @ [Lit (js ''\<newline>'')]\<rparr>"

definition setStatus' :: "jsstring \<Rightarrow> preview_page \<Rightarrow> preview_page" where
  "setStatus' message s = s\<lparr>statusEl' := js ''Status: '' @ message\<rparr>"

text \<open>\<open>text.replace(/\s+/g, " ")\<close>: every maximal run of white space becomes one space.\<close>

function replaceWhitespaceRuns :: "jsstring \<Rightarrow> jsstring" where
  "replaceWhitespaceRuns [] = []"
| "replaceWhitespaceRuns (c # cs) =
     (if isWhiteSpace c then 0x20 # replaceWhitespaceRuns (dropWhile isWhiteSpace cs)
      else c # replaceWhitespaceRuns cs)"
  by pat_completeness auto
termination
  by (relation "measure length") (auto simp: length_dropWhile_le less_Suc_eq_le)

text \<open>\<open>setPreview\<close>, for a string argument.\<close>

definition setPreview :: "jsstring \<Rightarrow> preview_page \<Rightarrow> preview_page" where
  "setPreview text s =
     (let normalized = trim (replaceWhitespaceRuns text);
          length = int (length normalized);
          previewSize = 400
      in s\<lparr>subtitleStart :=
              (if take 400 normalized \<noteq> [] then take 400 normalized else js ''-''),
            subtitleEnd :=
              (if length > previewSize then drop (nat (max 0 (length - previewSize))) normalized
               else if normalized \<noteq> [] then normalized else js ''-'')\<rparr>)"

definition connectSocket' :: "preview_page \<Rightarrow> preview_page" where
  "connectSocket' s =
     (if (case socket' s of None \<Rightarrow> False | Some i \<Rightarrow> isOpen (sockets' s) i) then s
      else s\<lparr>sockets' := sockets' s @
                 [\<lparr>ws_url = js ''ws://localhost:8765'', readyState = CONNECTING,
                   onceOpen = [], sent = []\<rparr>],
               socket' := Some (length (sockets' s))\<rparr>)"

text \<open>
  The \<open>message\<close> listener.  \<open>JSON.parse\<close> is not guarded here, so a frame that is not JSON
  ends the listener, as does one that parses to \<open>null\<close>.  The three \<open>if\<close> statements run one
  after the other.  \<open>setPreview\<close> throws a TypeError on a value that is not a string
  (\<open>text.replace\<close> is then undefined or not callable), which ends the listener after the
  first two assignments of the result branch.
\<close>

definition messageListener' :: "jsval option \<Rightarrow> preview_page \<Rightarrow> preview_page" where
  "messageListener' parsed s =
     (case parsed of
        None \<Rightarrow> s
      | Some payload \<Rightarrow>
          if nullish payload then s
          else
            let s1 = (if field payload (js ''type'') = JStr (js ''log'')
                      then appendLog' [Val (field payload (js ''message''))] s else s);
                s2 = (if field payload (js ''type'') = JStr (js ''error'')
                      then (setStatus' (js ''Error'')
                              (appendLog' [Lit (js ''Error: ''), Val (field payload (js ''message''))] s1))
                           \<lparr>downloadBtn_disabled := False\<rparr>
                      else s1)
            in if field payload (js ''type'') = JStr (js ''result'') then
                 (let s3 = s2\<lparr>fullSubtitle := field payload (js ''text''),
                              languageEl := jsOr (field payload (js ''language'')) (JStr (js ''unknown''))\<rparr>
                  in case fullSubtitle s3 of
                       JStr text \<Rightarrow>
                         appendLog' [Lit (js ''Subtitle ready.'')]
                           ((setStatus' (js ''Complete'')
                               ((setPreview text s3)\<lparr>copyBtn_disabled := False\<rparr>))
                            \<lparr>downloadBtn_disabled := False\<rparr>)
                     | other \<Rightarrow> s3)
               else s2)"

definition closeListener' :: "preview_page \<Rightarrow> preview_page" where
  "closeListener' s = appendLog' [Lit (js ''WebSocket disconnected.'')] s"

text \<open>The object this client's click handler serializes and sends.\<close>

definition downloadCommand :: "jsstring \<Rightarrow> jsval" where
  "downloadCommand videoId = JObj [(js ''type'', JStr (js ''download'')), (js ''id'', JStr videoId)]"

text \<open>The body of the once-only open listener and of the \<open>else\<close> branch of the click
  handler: \<open>socket.send\<close> on whatever the variable \<open>socket\<close> holds at that moment.\<close>

definition sendDownload' :: "jsstring \<Rightarrow> preview_page \<Rightarrow> preview_page" where
  "sendDownload' videoId s =
     (case socket' s of
        None \<Rightarrow> s
      | Some i \<Rightarrow>
          (case send i (downloadCommand videoId) (sockets' s) of
             Inl err \<Rightarrow> s
           | Inr wss \<Rightarrow> s\<lparr>sockets' := wss\<rparr>))"

definition downloadBtn_click :: "preview_page \<Rightarrow> preview_page" where
  "downloadBtn_click s =
     (let videoId = trim (videoIdInput s) in
      if videoId = [] then setStatus' (js ''Video ID required'') s
      else
        let s1 = s\<lparr>logArea := [],
                    subtitleStart := js ''-'',
                    subtitleEnd := js ''-'',
                    languageEl := JStr (js ''-''),
                    fullSubtitle := JStr [],
                    copyBtn_disabled := True\<rparr>;
            s2 = connectSocket' s1;
            s3 = (case socket' s2 of
                    None \<Rightarrow> s2
                  | Some i \<Rightarrow>
                      if \<not> isOpen (sockets' s2) i then
                        s2\<lparr>sockets' := (sockets' s2)
                              [i := (sockets' s2 ! i)\<lparr>onceOpen := onceOpen (sockets' s2 ! i) @ [videoId]\<rparr>]\<rparr>
                      else sendDownload' videoId s2)
        in setStatus' (js ''Downloading...'') (s3\<lparr>downloadBtn_disabled := True\<rparr>))"

definition socketEvent' :: "nat \<Rightarrow> socket_event \<Rightarrow> preview_page \<Rightarrow> preview_page" where
  "socketEvent' i ev s =
     (if i < length (sockets' s) then
        (case ev of
           WsOpen \<Rightarrow>
             if readyState (sockets' s ! i) = CONNECTING then
               (let pending = onceOpen (sockets' s ! i);
                    s1 = s\<lparr>sockets' := (sockets' s)[i := (sockets' s ! i)\<lparr>readyState := OPEN, onceOpen := []\<rparr>]\<rparr>;
                    s2 = appendLog' [Lit (js ''WebSocket connected.'')] s1
                in fold sendDownload' pending s2)
             else s
         | WsMessage parsed \<Rightarrow>
             if readyState (sockets' s ! i) = OPEN then messageListener' parsed s else s
         | WsClose \<Rightarrow>
             if readyState (sockets' s ! i) \<noteq> CLOSED then
               closeListener' (s\<lparr>sockets' := (sockets' s)[i := (sockets' s ! i)\<lparr>readyState := CLOSED\<rparr>]\<rparr>)
             else s
         | WsError \<Rightarrow> s)
      else s)"

text \<open>
  \<open>copyText\<close>, run to its end in one step, and the click listener of the copy button.
\<close>

definition copyText :: "copy_outcome \<Rightarrow> preview_page \<Rightarrow> preview_page" where
  "copyText outcome s =
     (case outcome of
        ClipboardWritten \<Rightarrow>
          appendLog' [Lit (js ''Copied subtitle to clipboard (Clipboard API). '')] s
      | ExecCommandTrue \<Rightarrow>
          appendLog' [Lit (js ''Copied subtitle to clipboard (execCommand). '')]
            (appendLog' [Lit (js ''Clipboard API failed, trying execCommand...'')] s)
      | ExecCommandFalse \<Rightarrow>
          appendLog' [Lit (js ''Clipboard API failed, trying execCommand...'')] s
      | ExecCommandThrew \<Rightarrow>
          appendLog' [Lit (js ''execCommand copy failed.'')]
            (appendLog' [Lit (js ''Clipboard API failed, trying execCommand...'')] s))"

definition copyBtn_click :: "copy_outcome \<Rightarrow> preview_page \<Rightarrow> preview_page" where
  "copyBtn_click outcome s = (if \<not> truthy (fullSubtitle s) then s else copyText outcome s)"

text \<open>The events of a session of this page.\<close>

datatype preview_event =
    Click'
  | Typed' jsstring
  | Copy' copy_outcome
  | Socket' nat socket_event

definition preview_step :: "preview_event \<Rightarrow> preview_page \<Rightarrow> preview_page" where
  "preview_step ev s =
     (case ev of
        Click' \<Rightarrow> if downloadBtn_disabled s then s else downloadBtn_click s
      | Typed' v \<Rightarrow> s\<lparr>videoIdInput := v\<rparr>
      | Copy' outcome \<Rightarrow> if copyBtn_disabled s then s else copyBtn_click outcome s
      | Socket' i sev \<Rightarrow> socketEvent' i sev s)"

definition preview_run :: "preview_event list \<Rightarrow> preview_page \<Rightarrow> preview_page" where
  "preview_run evs s = fold preview_step evs s"

section \<open>Definitions used to state the properties\<close>

text \<open>
  The normal form in words: the maximal runs of characters that are not white space, in
  order, joined by single spaces.
\<close>

function wordsOf :: "jsstring \<Rightarrow> jsstring list" where
  "wordsOf [] = []"
| "wordsOf (c # cs) =
     (if isWhiteSpace c then wordsOf cs
      else (c # takeWhile (\<lambda>x. \<not> isWhiteSpace x) cs)
           # wordsOf (dropWhile (\<lambda>x. \<not> isWhiteSpace x) cs))"
  by pat_completeness auto
termination
  by (relation "measure length") (auto simp: length_dropWhile_le less_Suc_eq_le)

fun joinWords :: "jsstring list \<Rightarrow> jsstring" where
  "joinWords [] = []"
| "joinWords [w] = w"
| "joinWords (w # v # vs) = w @ 0x20 # joinWords (v # vs)"

text \<open>The value \<open>backendAddressInput?.value || ""\<close>.\<close>

definition backendAddressValue :: "'a page_scheme \<Rightarrow> jsstring" where
  "backendAddressValue s = (case backendAddressInput s of None \<Rightarrow> [] | Some v \<Rightarrow> v)"

text \<open>A frame that ends a job on the socket: type \<open>error\<close> or type \<open>result\<close>.\<close>

definition terminalFrame :: "jsval \<Rightarrow> bool" where
  "terminalFrame frame \<longleftrightarrow>
     \<not> nullish frame \<and>
     (field frame (js ''type'') = JStr (js ''error'') \<or> field frame (js ''type'') = JStr (js ''result''))"

text \<open>
  For the start commands: \<open>good V w\<close> says that \<open>w\<close> is the non-empty trimmed form of an
  input in \<open>V\<close>; a socket is in order when the watch ids its pending open listeners hold are
  good and every frame sent on it is the command \<open>c\<close> of a good watch id.
\<close>

definition good :: "jsstring set \<Rightarrow> jsstring \<Rightarrow> bool" where
  "good V w \<longleftrightarrow> w \<noteq> [] \<and> (\<exists>v\<in>V. w = trim v)"

definition wsOk :: "jsstring set \<Rightarrow> (jsstring \<Rightarrow> jsval) \<Rightarrow> websocket \<Rightarrow> bool" where
  "wsOk V c ws \<longleftrightarrow>
     (\<forall>w\<in>set (onceOpen ws). good V w) \<and> (\<forall>f\<in>set (sent ws). \<exists>w. good V w \<and> f = c w)"

definition inv :: "jsstring set \<Rightarrow> app \<Rightarrow> bool" where
  "inv V s \<longleftrightarrow> watchIdInput s \<in> V \<and> list_all (wsOk V startCommand) (sockets s)"

definition inv' :: "jsstring set \<Rightarrow> preview_page \<Rightarrow> bool" where
  "inv' V s \<longleftrightarrow> videoIdInput s \<in> V \<and> list_all (wsOk V downloadCommand) (sockets' s)"

definition typed :: "app_event list \<Rightarrow> jsstring set" where
  "typed evs = {v. Typed v \<in> set evs}"

definition typed' :: "preview_event list \<Rightarrow> jsstring set" where
  "typed' evs = {v. Typed' v \<in> set evs}"

definition allClosed :: "app \<Rightarrow> bool" where
  "allClosed s \<longleftrightarrow> list_all (\<lambda>ws. readyState ws = CLOSED) (sockets s)"

text \<open>What \<open>fetch\<close> settles to for the request that \<open>createReservation\<close> makes.\<close>

definition reservationResponse :: "backend \<Rightarrow> jsstring \<Rightarrow> jsstring \<Rightarrow> jserror + response" where
  "reservationResponse b baseUrl watchId =
     fetch b (js ''POST'') (buildEndpointUrl baseUrl (js ''reservation''))
       (Some (JObj [(js ''watch_id'', JStr watchId)]))"

text \<open>
  For the event stream: what a terminal event settles the promise of \<open>waitForEvents\<close> to
  (\<open>None\<close> for an event that is not terminal), the outcome of the first terminal event of a
  stream, and the \<open>close\<close> calls the stream causes (one for \<open>completed\<close>; two for an
  \<open>error\<close> event, whose two handlers both close the source).
\<close>

definition terminalOutcome :: "sse \<Rightarrow> (jserror + unit) option" where
  "terminalOutcome ev =
     (case ev of
        SseOpen \<Rightarrow> None
      | SseLog parsed \<Rightarrow> None
      | SseError parsed \<Rightarrow>
          Some (Inl (Error
            (case parsed of
               None \<Rightarrow> JStr (js ''Stream error from backend.'')
             | Some data \<Rightarrow>
                 if nullish data then JStr (js ''Failed to connect to event stream.'')
                 else jsOr (field data (js ''message'')) (JStr (js ''Stream error from backend.'')))))
      | SseCompleted \<Rightarrow> Some (Inr ()))"

definition terminalEvent :: "sse \<Rightarrow> bool" where
  "terminalEvent ev \<longleftrightarrow> terminalOutcome ev \<noteq> None"

definition firstOutcome :: "sse list \<Rightarrow> (jserror + unit) option" where
  "firstOutcome evs = Option.bind (find terminalEvent evs) terminalOutcome"

definition streamCalls :: "sse list \<Rightarrow> call list" where
  "streamCalls evs =
     (case find terminalEvent evs of
        None \<Rightarrow> []
      | Some SseCompleted \<Rightarrow> [CloseEventSource]
      | Some other \<Rightarrow> [CloseEventSource, CloseEventSource])"

text \<open>
  For a click on the reservation page: the base URL the cycle works with, the state in
  which the \<open>try\<close> block is entered, the network operations the cycle is expected to start,
  and whether the cycle ends suspended on a stream that never settles.
\<close>

definition cycleBaseUrl :: "env \<Rightarrow> reservation_page \<Rightarrow> jsstring" where
  "cycleBaseUrl e s = fst (normalizeBackendBaseUrl e (backendAddressValue s) s)"

definition cycleStart :: "env \<Rightarrow> reservation_page \<Rightarrow> reservation_page" where
  "cycleStart e s =
     setStatus [Lit (js ''Creating reservation...'')]
       (snd (normalizeBackendBaseUrl e (backendAddressValue s)
          (s\<lparr>fullText := JStr [], latestText := JStr [], copyButton_disabled := True,
             copyPromptButton_disabled :=
               (case copyPromptButton_disabled s of None \<Rightarrow> None | Some d \<Rightarrow> Some True),
             downloadButton_disabled := True\<rparr>)))"

definition cycleCalls :: "env \<Rightarrow> backend \<Rightarrow> reservation_page \<Rightarrow> call list" where
  "cycleCalls e b s =
     (if trim (watchIdInput s) = [] then []
      else Fetch (js ''POST'') (buildEndpointUrl (cycleBaseUrl e s) (js ''reservation''))
             (Some (JObj [(js ''watch_id'', JStr (trim (watchIdInput s)))]))
         # (case fst (createReservation b (cycleBaseUrl e s) (trim (watchIdInput s)) s) of
              Inl err \<Rightarrow> []
            | Inr reservationId \<Rightarrow>
                (case encodeURIComponent e reservationId of
                   None \<Rightarrow> []
                 | Some enc \<Rightarrow>
                     NewEventSource (buildEndpointUrl (cycleBaseUrl e s) (js ''events/'' @ enc))
                     # (case find terminalEvent
                               (eventStream b (buildEndpointUrl (cycleBaseUrl e s) (js ''events/'' @ enc))) of
                          None \<Rightarrow> []
                        | Some SseCompleted \<Rightarrow>
                            [CloseEventSource,
                             Fetch (js ''GET'')
                               (buildEndpointUrl (cycleBaseUrl e s) (js ''result/'' @ enc)) None]
                        | Some other \<Rightarrow> [CloseEventSource, CloseEventSource]))))"

definition cyclePending :: "env \<Rightarrow> backend \<Rightarrow> reservation_page \<Rightarrow> bool" where
  "cyclePending e b s \<longleftrightarrow>
     trim (watchIdInput s) \<noteq> [] \<and>
     (case fst (createReservation b (cycleBaseUrl e s) (trim (watchIdInput s)) s) of
        Inl err \<Rightarrow> False
      | Inr reservationId \<Rightarrow>
          (case encodeURIComponent e reservationId of
             None \<Rightarrow> False
           | Some enc \<Rightarrow>
               find terminalEvent
                 (eventStream b (buildEndpointUrl (cycleBaseUrl e s) (js ''events/'' @ enc))) = None))"

text \<open>
  For \<open>normalizeSocketUrl\<close>: \<open>s.startsWith(p)\<close>; the string handed to \<open>new URL\<close> for a
  trimmed input; the port a URL connects to; the URL object just before \<open>toString\<close>; and
  what is taken from the URL standard about the two operations that are parameters of the
  model: the parser lower-cases the scheme it reads, and the \<open>pathname\<close> setter changes only
  the path and keeps a last segment \<open>ws\<close>.
\<close>

definition startsWith :: "jsstring \<Rightarrow> jsstring \<Rightarrow> bool" where
  "startsWith s p \<longleftrightarrow> take (length p) s = p"

definition urlArgument :: "env \<Rightarrow> jsstring \<Rightarrow> jsstring" where
  "urlArgument e trimmed =
     (if startsWithCI trimmed ''ws://'' \<or> startsWithCI trimmed ''wss://'' \<or>
         startsWithCI trimmed ''http://'' \<or> startsWithCI trimmed ''https://''
      then trimmed
      else (if location_protocol e = js ''https:'' then js ''wss:'' else js ''ws:'')
           @ js ''//'' @ trimmed)"


definition standardURL :: "env \<Rightarrow> bool" where
  "standardURL e \<longleftrightarrow>
     (\<forall>t u. URL_parse e t = Some u \<longrightarrow>
        (startsWithCI t ''ws://'' \<longrightarrow> url_scheme u = js ''ws'') \<and>
        (startsWithCI t ''wss://'' \<longrightarrow> url_scheme u = js ''wss'') \<and>
        (startsWithCI t ''http://'' \<longrightarrow> url_scheme u = js ''http'') \<and>
        (startsWithCI t ''https://'' \<longrightarrow> url_scheme u = js ''https'')) \<and>
     (\<forall>u p. url_scheme (set_pathname e u p) = url_scheme u \<and>
            url_host (set_pathname e u p) = url_host u \<and>
            url_port (set_pathname e u p) = url_port u \<and>
            (endsWith p (js ''/ws'') \<longrightarrow> endsWith (url_pathname (set_pathname e u p)) (js ''/ws'')))"

definition withSocketPath :: "env \<Rightarrow> url \<Rightarrow> url" where
  "withSocketPath e url =
     (if url_pathname url = [] \<or> url_pathname url = js ''/''
      then set_pathname e url (js ''/ws'')
      else if \<not> endsWith (url_pathname url) (js ''/ws'')
      then set_pathname e url (stripTrailingSlashes (url_pathname url) @ js ''/ws'')
      else url)"

subsection \<open>Example pages and surroundings\<close>

text \<open>
  A freshly loaded page of each client with a watch id typed in, a page location, and a
  URL implementation that is given for two addresses only.  The examples below are
  evaluated on them.
\<close>

definition example_page :: page where
  "example_page =
     \<lparr>statusEl = [], logEl = [], backendAddressInput = Some [], watchIdInput = js ''dQw4w9WgXcQ'',
      downloadButton_disabled = False, copyButton_disabled = True, fullText = JStr [],
      latestText = JStr [], localStorage = Map.empty\<rparr>"

definition example_app :: app where
  "example_app =
     page.extend example_page
       \<lparr>summaryBeginning = JStr [], summaryEnding = JStr [], sockets = [], socket = None\<rparr>"

definition example_reservation_page :: reservation_page where
  "example_reservation_page =
     page.extend example_page
       \<lparr>copyPromptButton_disabled = Some True, promptTemplateInput = Some [], calls = []\<rparr>"

definition example_preview_page :: preview_page where
  "example_preview_page =
     \<lparr>statusEl' = [], logArea = [], downloadBtn_disabled = False, copyBtn_disabled = True,
      videoIdInput = js ''dQw4w9WgXcQ'', languageEl = JStr (js ''-''), subtitleStart = js ''-'',
      subtitleEnd = js ''-'', fullSubtitle = JStr [], sockets' = [], socket' = None\<rparr>"

definition example_url :: url where
  "example_url =
     \<lparr>url_scheme = js ''https'', url_username = [], url_password = [],
      url_host = js ''example.com'', url_port = Some 8443, url_pathname = js ''/api/'',
      url_query = None, url_fragment = None\<rparr>"

definition example_url' :: url where
  "example_url' =
     \<lparr>url_scheme = js ''http'', url_username = [], url_password = [],
      url_host = js ''localhost'', url_port = Some 9000, url_pathname = js ''/'',
      url_query = None, url_fragment = None\<rparr>"

text \<open>
  In the example surroundings \<open>new WebSocket\<close> accepts a string that starts with \<open>ws://\<close> or
  \<open>wss://\<close> and has no fragment, and \<open>encodeURIComponent\<close> is given on strings of unreserved
  characters, which it returns as they are; every other value stands for one it throws on,
  as it does on a lone surrogate.
\<close>

definition isUnreserved :: "jschar \<Rightarrow> bool" where
  "isUnreserved c \<longleftrightarrow>
     (0x41 \<le> c \<and> c \<le> 0x5A) \<or> (0x61 \<le> c \<and> c \<le> 0x7A) \<or> (0x30 \<le> c \<and> c \<le> 0x39) \<or>
     c \<in> set (js ''-_.!~*()'') \<or> c = 0x27"

definition example_env :: env where
  "example_env =
     \<lparr>location_protocol = js ''http:'', location_hostname = js ''localhost'',
      location_port = js ''8080'', location_origin = js ''http://localhost:8080'',
      URL_parse = (\<lambda>t. if t = js ''https://example.com:8443/api/'' then Some example_url
                        else if t = js ''HTTP://localhost:9000'' then Some example_url'
                        else None),
      set_pathname = (\<lambda>u p. u\<lparr>url_pathname := p\<rparr>),
      WebSocket_accepts =
        (\<lambda>u. (startsWith u (js ''ws://'') \<or> startsWith u (js ''wss://'')) \<and> 0x23 \<notin> set u),
      encodeURIComponent =
        (\<lambda>v. case v of
                JStr t \<Rightarrow> if list_all isUnreserved t then Some t else None
              | other \<Rightarrow> None)\<rparr>"

text \<open>A backend that answers every request with the same status and body and streams no
  event.\<close>

definition answering :: "nat \<Rightarrow> jsval option \<Rightarrow> backend" where
  "answering st body =
     \<lparr>fetch = (\<lambda>m u b. Inr \<lparr>status = st, json_body = body\<rparr>), eventStream = (\<lambda>u. [])\<rparr>"

text \<open>An open socket and a terminal frame, for the examples.\<close>

definition open_socket :: websocket where
  "open_socket = \<lparr>ws_url = js ''ws://localhost:8080/ws'', readyState = OPEN, onceOpen = [], sent = []\<rparr>"

definition error_frame :: jsval where
  "error_frame = JObj [(js ''type'', JStr (js ''error'')), (js ''message'', JStr (js ''No subtitles''))]"

text \<open>A backend that reserves \<open>r1\<close>, streams a log line and \<open>completed\<close> (and, after it,
  an error event that must go unnoticed), and answers the result request.\<close>

definition example_events :: "sse list" where
  "example_events =
     [SseOpen, SseLog (Some (JObj [(js ''message'', JStr (js ''Downloading subtitles''))])),
      SseCompleted, SseError None]"

definition example_backend :: backend where
  "example_backend =
     \<lparr>fetch = (\<lambda>m u body.
        if m = js ''POST''
        then Inr \<lparr>status = 200, json_body = Some (JObj [(js ''reservation_id'', JStr (js ''r1''))])\<rparr>
        else Inr \<lparr>status = 200,
                  json_body = Some (JObj [(js ''text'', JStr (js ''Hello'')),
                                          (js ''language'', JStr (js ''en''))])\<rparr>),
      eventStream = (\<lambda>u. example_events)\<rparr>"

text \<open>A backend that cannot be reached, and the state in which \<open>waitForEvents\<close> starts to
  listen on the example page.\<close>

definition unreachable :: backend where
  "unreachable = \<lparr>fetch = (\<lambda>m u b. Inl NetworkError), eventStream = (\<lambda>u. [])\<rparr>"


section \<open>White space\<close>

lemma isWhiteSpace_space: "isWhiteSpace 0x20"
  by (simp add: isWhiteSpace_def)

lemma replaceWhitespaceRuns_dropWhile:
  "dropWhile isWhiteSpace (replaceWhitespaceRuns t) = replaceWhitespaceRuns (dropWhile isWhiteSpace t)"
proof (cases t)
  case Nil
  then show ?thesis by simp
next
  case (Cons c cs)
  show ?thesis
  proof (cases "isWhiteSpace c")
    case False
    with Cons show ?thesis by simp
  next
    case True
    let ?r = "dropWhile isWhiteSpace cs"
    have "dropWhile isWhiteSpace (replaceWhitespaceRuns ?r) = replaceWhitespaceRuns ?r"
    proof (cases ?r)
      case Nil
      show ?thesis unfolding Nil by simp
    next
      case (Cons d ds)
      then have "\<not> isWhiteSpace d"
        using hd_dropWhile[of isWhiteSpace cs] by auto
      with Cons show ?thesis by simp
    qed
    with True Cons show ?thesis by (simp add: isWhiteSpace_space)
  qed
qed

lemma replaceWhitespaceRuns_word:
  "replaceWhitespaceRuns t =
     takeWhile (\<lambda>x. \<not> isWhiteSpace x) t
     @ replaceWhitespaceRuns (dropWhile (\<lambda>x. \<not> isWhiteSpace x) t)"
  by (induction t) auto

lemma trimEnd_append_word:
  assumes "w \<noteq> []" and "\<not> isWhiteSpace (last w)"
  shows "trimEnd (w @ x) = w @ trimEnd x"
proof (cases "\<forall>c\<in>set x. isWhiteSpace c")
  case True
  have "dropWhile isWhiteSpace (rev x @ rev w) = dropWhile isWhiteSpace (rev w)"
    by (rule dropWhile_append2) (use True in auto)
  moreover have "dropWhile isWhiteSpace (rev w) = rev w"
    using assms by (cases "rev w") (auto simp: last_rev hd_rev[symmetric])
  ultimately show ?thesis using True by (simp add: trimEnd_def)
next
  case False
  then have "dropWhile isWhiteSpace (rev x @ rev w) = dropWhile isWhiteSpace (rev x) @ rev w"
    by (auto simp: dropWhile_append1)
  then show ?thesis by (simp add: trimEnd_def)
qed

lemma trimEnd_Cons:
  "trimEnd (c # y) = (if trimEnd y = [] \<and> isWhiteSpace c then [] else c # trimEnd y)"
  by (auto simp: trimEnd_def dropWhile_append dropWhile_eq_Nil_conv)

lemma wordsOf_nonempty: "w \<in> set (wordsOf t) \<Longrightarrow> w \<noteq> []"
  by (induction t rule: wordsOf.induct) (auto split: if_splits)

lemma joinWords_Nil: "\<forall>w\<in>set ws. w \<noteq> [] \<Longrightarrow> joinWords ws = [] \<longleftrightarrow> ws = []"
  by (induction ws rule: joinWords.induct) auto

lemma trim_replaceWhitespaceRuns:
  "trim (replaceWhitespaceRuns t) = joinWords (wordsOf t)"
proof (induction t rule: wordsOf.induct)
  case 1
  show ?case by (simp add: trim_def trimStart_def trimEnd_def)
next
  case (2 c cs)
  show ?case
  proof (cases "isWhiteSpace c")
    case True
    have "trim (replaceWhitespaceRuns (c # cs)) = trim (replaceWhitespaceRuns cs)"
      using True
      by (simp add: trim_def trimStart_def isWhiteSpace_space replaceWhitespaceRuns_dropWhile)
    with 2 True show ?thesis by simp
  next
    case False
    let ?w = "c # takeWhile (\<lambda>x. \<not> isWhiteSpace x) cs"
    let ?r = "dropWhile (\<lambda>x. \<not> isWhiteSpace x) cs"
    have IH: "trim (replaceWhitespaceRuns ?r) = joinWords (wordsOf ?r)"
      using 2 False by simp
    have lastw: "\<not> isWhiteSpace (last ?w)"
      using False
      by (metis (mono_tags, lifting) last_ConsL last_ConsR last_in_set set_takeWhileD)
    have "replaceWhitespaceRuns (c # cs) = ?w @ replaceWhitespaceRuns ?r"
      using False replaceWhitespaceRuns_word[of cs] by simp
    then have g: "trim (replaceWhitespaceRuns (c # cs)) = ?w @ trimEnd (replaceWhitespaceRuns ?r)"
      using False lastw trimEnd_append_word[of ?w "replaceWhitespaceRuns ?r"]
      by (simp add: trim_def trimStart_def)
    have w: "wordsOf (c # cs) = ?w # wordsOf ?r"
      using False by simp
    show ?thesis
    proof (cases ?r)
      case Nil
      have "wordsOf ?r = []" "trimEnd (replaceWhitespaceRuns ?r) = []"
        unfolding Nil by (simp_all add: trimEnd_def)
      with g w show ?thesis by simp
    next
      case (Cons d ds)
      then have d: "isWhiteSpace d"
        using hd_dropWhile[of "\<lambda>x. \<not> isWhiteSpace x" cs] by auto
      let ?y = "replaceWhitespaceRuns (dropWhile isWhiteSpace ds)"
      have ry: "replaceWhitespaceRuns ?r = 0x20 # ?y"
        using Cons d by simp
      have "trim (replaceWhitespaceRuns ?r) = trimEnd ?y"
        using Cons d
        by (simp add: trim_def trimStart_def replaceWhitespaceRuns_dropWhile isWhiteSpace_space)
      with IH have ty: "trimEnd ?y = joinWords (wordsOf ?r)"
        by simp
      show ?thesis
      proof (cases "wordsOf ?r")
        case Nil
        with ty g ry w show ?thesis by (simp add: trimEnd_Cons isWhiteSpace_space)
      next
        case (Cons v vs)
        then have "joinWords (wordsOf ?r) \<noteq> []"
          using joinWords_Nil[of "wordsOf ?r"] wordsOf_nonempty[of _ ?r] by auto
        with ty g ry w Cons show ?thesis by (simp add: trimEnd_Cons)
      qed
    qed
  qed
qed

text \<open>
  C10.  \<open>setPreview\<close> normalizes its input to the words of the text joined by single spaces
  (every white-space run collapsed to one space, none left at either end).  The beginning
  excerpt is the first 400 code units of the normalized text; the ending excerpt is its last
  400 code units when it is longer than 400, and the whole normalized text otherwise; when
  the normalized text is empty both excerpts are \<open>"-"\<close>.  Nothing else on the page changes.
\<close>

theorem setPreview_excerpts:
  "trim (replaceWhitespaceRuns text) = joinWords (wordsOf text) \<and>
   setPreview text s =
     s\<lparr>subtitleStart :=
         (if joinWords (wordsOf text) = [] then js ''-'' else take 400 (joinWords (wordsOf text))),
       subtitleEnd :=
         (if 400 < length (joinWords (wordsOf text))
          then drop (length (joinWords (wordsOf text)) - 400) (joinWords (wordsOf text))
          else if joinWords (wordsOf text) = [] then js ''-''
          else joinWords (wordsOf text))\<rparr>"
proof -
  have "nat (int (length n) - 400) = length n - 400" for n :: jsstring
    by linarith
  then show ?thesis
    by (simp add: setPreview_def Let_def trim_replaceWhitespaceRuns)
qed
section \<open>The common part of the page\<close>

lemma js_append: "js (a @ b) = js a @ js b"
  by (simp add: js_def)

lemma length_js [simp]: "length (js a) = length a"
  by (simp add: js_def)

lemmas example_defs = example_page_def example_reservation_page_def example_app_def
  example_url_def example_env_def page.defs

lemma trim_example: "trim (js ''dQw4w9WgXcQ'') = js ''dQw4w9WgXcQ''"
  by (simp add: trim_def trimStart_def trimEnd_def js_def isWhiteSpace_def)

lemma example_nonempty: "js ''dQw4w9WgXcQ'' \<noteq> []"
  by (simp add: js_def)

lemma trim_spaces: "trim (js ''  '') = []"
  by (simp add: trim_def trimStart_def trimEnd_def js_def isWhiteSpace_def)

lemma trim_Nil: "trim [] = []"
  by (simp add: trim_def trimStart_def trimEnd_def)

lemma page_appendLog [simp]:
  "downloadButton_disabled (appendLog m l s) = downloadButton_disabled s"
  "watchIdInput (appendLog m l s) = watchIdInput s"
  "backendAddressInput (appendLog m l s) = backendAddressInput s"
  by (simp_all add: appendLog_def)

lemma page_setStatus [simp]:
  "downloadButton_disabled (setStatus m s) = downloadButton_disabled s"
  "watchIdInput (setStatus m s) = watchIdInput s"
  "backendAddressInput (setStatus m s) = backendAddressInput s"
  by (simp_all add: setStatus_def)

lemma page_copyToClipboard [simp]:
  "downloadButton_disabled (copyToClipboard outcome text s) = downloadButton_disabled s"
  "watchIdInput (copyToClipboard outcome text s) = watchIdInput s"
  "backendAddressInput (copyToClipboard outcome text s) = backendAddressInput s"
  by (simp_all add: copyToClipboard_def split: copy_outcome.splits)

lemma page_backendAddress_change [simp]:
  "downloadButton_disabled (backendAddress_change s) = downloadButton_disabled s"
  "watchIdInput (backendAddress_change s) = watchIdInput s"
  "backendAddressInput (backendAddress_change s) = backendAddressInput s"
  by (simp_all add: backendAddress_change_def Let_def split: option.splits)

lemma example_env_fields:
  "URL_parse example_env t =
     (if t = js ''https://example.com:8443/api/'' then Some example_url
      else if t = js ''HTTP://localhost:9000'' then Some example_url' else None)"
  "set_pathname example_env u p = u\<lparr>url_pathname := p\<rparr>"
  "location_protocol example_env = js ''http:''"
  "location_hostname example_env = js ''localhost''"
  "location_port example_env = js ''8080''"
  "encodeURIComponent example_env (JStr (js ''r1'')) = Some (js ''r1'')"
  "encodeURIComponent example_env (JStr [0xD800]) = None"
  "WebSocket_accepts example_env (js ''ws://localhost:8080/ws'')"
  by (simp_all add: example_env_def isUnreserved_def startsWith_def js_def)

section \<open>The socket URL\<close>


lemma endsWith_append: "endsWith (r @ p) p"
  by (simp add: endsWith_def)

lemma startsWithCI_append: "startsWithCI (js p @ r) p \<longleftrightarrow> map lowerAscii (js p) = js p"
  by (simp add: startsWithCI_def)






lemma withSocketPath:
  assumes "standardURL e"
  shows "url_scheme (withSocketPath e u) = url_scheme u"
    "url_host (withSocketPath e u) = url_host u"
    "url_port (withSocketPath e u) = url_port u"
    "endsWith (url_pathname (withSocketPath e u)) (js ''/ws'')"
proof -
  have sp: "url_scheme (set_pathname e u p) = url_scheme u"
      "url_host (set_pathname e u p) = url_host u"
      "url_port (set_pathname e u p) = url_port u"
      "endsWith p (js ''/ws'') \<Longrightarrow> endsWith (url_pathname (set_pathname e u p)) (js ''/ws'')" for p
    using assms unfolding standardURL_def by blast+
  have e1: "endsWith (js ''/ws'') (js ''/ws'')"
    by (simp add: endsWith_def)
  have e2: "endsWith (stripTrailingSlashes (url_pathname u) @ js ''/ws'') (js ''/ws'')"
    by (rule endsWith_append)
  show "url_scheme (withSocketPath e u) = url_scheme u"
    "url_host (withSocketPath e u) = url_host u"
    "url_port (withSocketPath e u) = url_port u"
    by (simp_all add: withSocketPath_def sp)
  show "endsWith (url_pathname (withSocketPath e u)) (js ''/ws'')"
    using sp(4)[OF e1] sp(4)[OF e2] by (simp add: withSocketPath_def)
qed



lemma normalizeSocketUrl_fst_cases:
  "fst (normalizeSocketUrl e v s) =
     (if trim v = [] then defaultSocketUrl e
      else case URL_parse e (urlArgument e (trim v)) of
             None \<Rightarrow> defaultSocketUrl e
           | Some u0 \<Rightarrow>
               URL_toString (withSocketPath e
                 (if startsWithCI (trim v) ''ws://'' \<or> startsWithCI (trim v) ''wss://'' then u0
                  else if startsWithCI (trim v) ''http://'' \<or> startsWithCI (trim v) ''https://''
                  then set_protocol u0 (if protocol u0 = js ''https:'' then js ''wss:'' else js ''ws:'')
                  else u0)))"
  by (simp add: normalizeSocketUrl_def urlArgument_def withSocketPath_def Let_def
      split: option.splits)













lemma example_default_url: "defaultSocketUrl example_env = js ''ws://localhost:8080/ws''"
  by (simp add: defaultSocketUrl_def example_env_def) (simp add: js_def)



section \<open>The socket clients\<close>

subsection \<open>What the handlers leave alone\<close>

lemma js_neq [simp]:
  "js ''log'' \<noteq> js ''error''" "js ''log'' \<noteq> js ''result''" "js ''error'' \<noteq> js ''result''"
  "js ''error'' \<noteq> js ''log''" "js ''result'' \<noteq> js ''log''" "js ''result'' \<noteq> js ''error''"
  by (simp_all add: js_def)

lemma sockets_appendLog [simp]:
  "sockets (appendLog m l s) = sockets s" "socket (appendLog m l s) = socket s"
  by (simp_all add: appendLog_def)

lemma sockets_setStatus [simp]:
  "sockets (setStatus m s) = sockets s" "socket (setStatus m s) = socket s"
  by (simp_all add: setStatus_def)

lemma sockets_copyToClipboard [simp]:
  "sockets (copyToClipboard outcome text s) = sockets s"
  "socket (copyToClipboard outcome text s) = socket s"
  by (simp_all add: copyToClipboard_def split: copy_outcome.splits)

lemma sockets_backendAddress_change [simp]:
  "sockets (backendAddress_change s) = sockets s"
  "socket (backendAddress_change s) = socket s"
  by (simp_all add: backendAddress_change_def Let_def split: option.splits)

lemma copyBtn_click_fields [simp]:
  "sockets' (copyBtn_click outcome s) = sockets' s"
  "socket' (copyBtn_click outcome s) = socket' s"
  "videoIdInput (copyBtn_click outcome s) = videoIdInput s"
  "downloadBtn_disabled (copyBtn_click outcome s) = downloadBtn_disabled s"
  by (simp_all add: copyBtn_click_def copyText_def appendLog'_def split: copy_outcome.splits)

lemma messageListener_sockets:
  "sockets (messageListener parsed s) = sockets s \<and> socket (messageListener parsed s) = socket s
   \<and> watchIdInput (messageListener parsed s) = watchIdInput s"
  by (simp add: messageListener_def Let_def split: option.splits)

lemma messageListener_terminal:
  "terminalFrame frame \<Longrightarrow> \<not> downloadButton_disabled (messageListener (Some frame) s)"
  by (auto simp: messageListener_def terminalFrame_def Let_def)

lemma click_open:
  assumes "socket s = Some i" "isOpen (sockets s) i" "trim (watchIdInput s) \<noteq> []"
  shows "socket (downloadButton_click e s) = Some i"
    "sockets (downloadButton_click e s) =
       (sockets s)[i := (sockets s ! i)
          \<lparr>onceOpen := onceOpen (sockets s ! i) @ [trim (watchIdInput s)],
           sent := sent (sockets s ! i) @ [startCommand (trim (watchIdInput s))]\<rparr>]"
  using assms
  by (simp_all add: downloadButton_click_def sanitizeWatchId_def Let_def connectSocket_def
      addOnceOpen_def isOpen_def sendDownloadRequest_def send_def)

lemma messageListener'_sockets:
  "sockets' (messageListener' parsed s) = sockets' s \<and> socket' (messageListener' parsed s) = socket' s
   \<and> videoIdInput (messageListener' parsed s) = videoIdInput s"
  by (simp add: messageListener'_def Let_def appendLog'_def setStatus'_def setPreview_def
      split: option.splits jsval.splits)

lemma click'_open:
  assumes "socket' s = Some i" "isOpen (sockets' s) i" "trim (videoIdInput s) \<noteq> []"
  shows "socket' (downloadBtn_click s) = Some i"
    "sockets' (downloadBtn_click s) =
       (sockets' s)[i := (sockets' s ! i)
          \<lparr>sent := sent (sockets' s ! i) @ [downloadCommand (trim (videoIdInput s))]\<rparr>]"
  using assms
  by (simp_all add: downloadBtn_click_def Let_def connectSocket'_def setStatus'_def
      isOpen_def sendDownload'_def send_def)

lemma normalizeSocketUrl_snd:
  "snd (normalizeSocketUrl e v s) = s\<lparr>logEl := logEl (snd (normalizeSocketUrl e v s))\<rparr>"
  by (simp add: normalizeSocketUrl_def Let_def appendLog_def split: option.splits)

lemma normalizeSocketUrl_fields [simp]:
  "sockets (snd (normalizeSocketUrl e v s)) = sockets s"
  "socket (snd (normalizeSocketUrl e v s)) = socket s"
  "downloadButton_disabled (snd (normalizeSocketUrl e v s)) = downloadButton_disabled s"
  "watchIdInput (snd (normalizeSocketUrl e v s)) = watchIdInput s"
  by (subst normalizeSocketUrl_snd, simp)+

lemma normalizeSocketUrl_fst:
  "fst (normalizeSocketUrl e v s) = fst (normalizeSocketUrl e v t)"
  by (simp add: normalizeSocketUrl_def Let_def split: option.splits)

lemma connectSocket_open:
  "socket s = Some i \<Longrightarrow> isOpen (sockets s) i \<Longrightarrow> connectSocket e s = (Some i, s)"
  by (simp add: connectSocket_def)

lemma connectSocket_new:
  assumes "\<not> (case socket s of None \<Rightarrow> False | Some i \<Rightarrow> isOpen (sockets s) i)"
  shows "fst (connectSocket e s) =
           (if WebSocket_accepts e (fst (normalizeSocketUrl e (backendAddressValue s) s))
            then Some (length (sockets s)) else None)"
    and "sockets (snd (connectSocket e s)) =
           (if WebSocket_accepts e (fst (normalizeSocketUrl e (backendAddressValue s) s))
            then sockets s @ [\<lparr>ws_url = fst (normalizeSocketUrl e (backendAddressValue s) s),
                                readyState = CONNECTING, onceOpen = [], sent = []\<rparr>]
            else sockets s)"
    and "socket (snd (connectSocket e s)) =
           (if WebSocket_accepts e (fst (normalizeSocketUrl e (backendAddressValue s) s))
            then Some (length (sockets s)) else socket s)"
    and "downloadButton_disabled (snd (connectSocket e s)) = downloadButton_disabled s"
    and "watchIdInput (snd (connectSocket e s)) = watchIdInput s"
  using assms
  by (simp_all add: connectSocket_def backendAddressValue_def split_beta Let_def)

lemma connectSocket_fields [simp]:
  "downloadButton_disabled (snd (connectSocket e s)) = downloadButton_disabled s"
  "watchIdInput (snd (connectSocket e s)) = watchIdInput s"
  by (simp_all add: connectSocket_def split_beta Let_def)

lemma sendDownloadRequest_disabled [simp]:
  "downloadButton_disabled (sendDownloadRequest i w s) = downloadButton_disabled s"
  by (simp add: sendDownloadRequest_def split: sum.splits)

lemma fold_sendDownloadRequest_disabled [simp]:
  "downloadButton_disabled (fold (sendDownloadRequest i) ws s) = downloadButton_disabled s"
  by (induction ws arbitrary: s) simp_all

lemma click_disables:
  "trim (watchIdInput s) \<noteq> [] \<Longrightarrow> downloadButton_disabled (downloadButton_click e s)"
  by (simp add: downloadButton_click_def sanitizeWatchId_def Let_def split_beta addOnceOpen_def
      split: option.splits)

lemma socketEvent_no_message_disabled:
  "(\<And>parsed. ev \<noteq> WsMessage parsed) \<Longrightarrow>
     downloadButton_disabled (socketEvent i ev s) = downloadButton_disabled s"
  by (cases ev) (auto simp: socketEvent_def Let_def closeListener_def errorListener_def)

lemma sendDownloadRequest_watchIdInput [simp]:
  "watchIdInput (sendDownloadRequest i w s) = watchIdInput s"
  by (simp add: sendDownloadRequest_def split: sum.splits)

lemma fold_sendDownloadRequest_watchIdInput [simp]:
  "watchIdInput (fold (sendDownloadRequest i) ws s) = watchIdInput s"
  by (induction ws arbitrary: s) simp_all

lemma socketEvent_watchIdInput [simp]:
  "watchIdInput (socketEvent i ev s) = watchIdInput s"
  using messageListener_sockets[of _ s]
  by (cases ev) (simp_all add: socketEvent_def Let_def closeListener_def errorListener_def)

lemma sendDownload'_videoIdInput [simp]:
  "videoIdInput (sendDownload' w s) = videoIdInput s"
  by (simp add: sendDownload'_def split: sum.splits option.splits)

lemma fold_sendDownload'_videoIdInput [simp]:
  "videoIdInput (fold sendDownload' ws s) = videoIdInput s"
  by (induction ws arbitrary: s) simp_all

lemma socketEvent'_videoIdInput [simp]:
  "videoIdInput (socketEvent' i ev s) = videoIdInput s"
  using messageListener'_sockets[of _ s]
  by (cases ev) (simp_all add: socketEvent'_def Let_def closeListener'_def appendLog'_def)

lemma app_run_append: "app_run e (xs @ ys) s = app_run e ys (app_run e xs s)"
  by (simp add: app_run_def)

lemma click_new_socket_full:
  assumes "trim (watchIdInput s) \<noteq> []" "socket s = None"
    "WebSocket_accepts e (fst (normalizeSocketUrl e (backendAddressValue s) s))"
  shows "sockets (downloadButton_click e s) =
           sockets s @ [\<lparr>ws_url = fst (normalizeSocketUrl e (backendAddressValue s) s),
                          readyState = CONNECTING, onceOpen = [trim (watchIdInput s)], sent = []\<rparr>]"
proof -
  let ?s2 = "setStatus [Lit (js ''Requesting subtitles...'')]
               (s\<lparr>summaryBeginning := JStr (js ''Downloading...''),
                  summaryEnding := JStr (js ''Downloading...''),
                  fullText := JStr [], latestText := JStr [],
                  copyButton_disabled := True, downloadButton_disabled := True\<rparr>)"
  have no: "\<not> (case socket ?s2 of None \<Rightarrow> False | Some i \<Rightarrow> isOpen (sockets ?s2) i)"
    using assms(2) by simp
  have u: "fst (normalizeSocketUrl e (backendAddressValue ?s2) ?s2)
             = fst (normalizeSocketUrl e (backendAddressValue s) s)"
    using normalizeSocketUrl_fst[of e "backendAddressValue s" ?s2 s]
    by (simp add: backendAddressValue_def)
  have f: "fst (connectSocket e ?s2) = Some (length (sockets s))"
    using connectSocket_new(1)[OF no, of e] assms(3) u by simp
  have k: "sockets (snd (connectSocket e ?s2)) =
      sockets s @ [\<lparr>ws_url = fst (normalizeSocketUrl e (backendAddressValue s) s),
                     readyState = CONNECTING, onceOpen = [], sent = []\<rparr>]"
    using connectSocket_new(2)[OF no, of e] assms(3) u by simp
  have "downloadButton_click e s =
          (let s4 = addOnceOpen (length (sockets s)) (trim (watchIdInput s)) (snd (connectSocket e ?s2))
           in if isOpen (sockets s4) (length (sockets s))
              then sendDownloadRequest (length (sockets s)) (trim (watchIdInput s)) s4 else s4)"
    using assms(1) f
    by (simp add: downloadButton_click_def sanitizeWatchId_def Let_def split_beta)
  then show ?thesis
    using k by (simp add: Let_def addOnceOpen_def isOpen_def nth_append)
qed

lemma open_sends_pending:
  assumes "sockets s = [\<lparr>ws_url = u, readyState = CONNECTING, onceOpen = [w], sent = []\<rparr>]"
  shows "sockets (socketEvent 0 WsOpen s) =
           [\<lparr>ws_url = u, readyState = OPEN, onceOpen = [], sent = [startCommand w]\<rparr>]"
  using assms by (simp add: socketEvent_def Let_def sendDownloadRequest_def send_def)

lemma click'_new_socket:
  assumes "trim (videoIdInput s) \<noteq> []" "socket' s = None" "sockets' s = []"
  shows "sockets' (downloadBtn_click s) =
           [\<lparr>ws_url = js ''ws://localhost:8765'', readyState = CONNECTING,
             onceOpen = [trim (videoIdInput s)], sent = []\<rparr>]"
    and "socket' (downloadBtn_click s) = Some 0"
  using assms
  by (simp_all add: downloadBtn_click_def Let_def connectSocket'_def isOpen_def setStatus'_def)

lemma open'_sends_pending:
  assumes "sockets' s = [\<lparr>ws_url = u, readyState = CONNECTING, onceOpen = [w], sent = []\<rparr>]"
    and "socket' s = Some 0"
  shows "sockets' (socketEvent' 0 WsOpen s) =
           [\<lparr>ws_url = u, readyState = OPEN, onceOpen = [], sent = [downloadCommand w]\<rparr>]"
  using assms
  by (simp add: socketEvent'_def Let_def sendDownload'_def send_def appendLog'_def)

lemma click_new_socket:
  assumes "trim (watchIdInput s) \<noteq> []" "socket s = None"
    "WebSocket_accepts e (fst (normalizeSocketUrl e (backendAddressValue s) s))"
  shows "map readyState (sockets (downloadButton_click e s)) = map readyState (sockets s) @ [CONNECTING]"
  using click_new_socket_full[OF assms] by simp

lemma example_app_facts:
  "trim (watchIdInput example_app) \<noteq> []" "socket example_app = None"
  "sockets example_app = []" "\<not> downloadButton_disabled example_app"
  "WebSocket_accepts example_env
     (fst (normalizeSocketUrl example_env (backendAddressValue example_app) example_app))"
proof -
  show "trim (watchIdInput example_app) \<noteq> []" "socket example_app = None"
    "sockets example_app = []" "\<not> downloadButton_disabled example_app"
    by (simp_all add: example_defs trim_example example_nonempty)
  have "backendAddressValue example_app = []"
    by (simp add: backendAddressValue_def example_defs)
  then have "fst (normalizeSocketUrl example_env (backendAddressValue example_app) example_app)
               = js ''ws://localhost:8080/ws''"
    by (simp add: normalizeSocketUrl_fst_cases trim_Nil example_default_url)
  then show "WebSocket_accepts example_env
     (fst (normalizeSocketUrl example_env (backendAddressValue example_app) example_app))"
    by (simp add: example_env_fields)
qed

lemma example_preview_facts:
  "trim (videoIdInput example_preview_page) = js ''dQw4w9WgXcQ''"
  "socket' example_preview_page = None" "sockets' example_preview_page = []"
  "\<not> downloadBtn_disabled example_preview_page"
  by (simp_all add: example_preview_page_def trim_example)

lemma example_app_input: "trim (watchIdInput example_app) = js ''dQw4w9WgXcQ''"
  by (simp add: example_defs trim_example)

lemma error_frame_terminal: "terminalFrame error_frame"
  by (simp add: terminalFrame_def error_frame_def nullish_def)

subsection \<open>The socket after a terminal frame\<close>

text \<open>
  C7.  When the socket held by the variable \<open>socket\<close> is open and a frame of type \<open>error\<close> or
  \<open>result\<close> arrives on it, the client leaves the socket as it is (still open, nothing sent,
  none created), and a following download request with a non-empty watch id creates no new
  socket: it sends its start command on that same socket.  This holds for \<open>docs/app.js\<close>
  and for the client with the preview.
\<close>

theorem terminal_frame_keeps_socket:
  "(socket s = Some i \<and> isOpen (sockets s) i \<and> terminalFrame frame \<longrightarrow>
      (let s1 = socketEvent i (WsMessage (Some frame)) s in
         socket s1 = Some i \<and> sockets s1 = sockets s \<and> isOpen (sockets s1) i \<and>
         \<not> downloadButton_disabled s1 \<and>
         (trim (watchIdInput s1) \<noteq> [] \<longrightarrow>
            (let s2 = app_step e Click s1 in
               socket s2 = Some i \<and> length (sockets s2) = length (sockets s) \<and>
               isOpen (sockets s2) i \<and> ws_url (sockets s2 ! i) = ws_url (sockets s ! i) \<and>
               sent (sockets s2 ! i) = sent (sockets s ! i) @ [startCommand (trim (watchIdInput s1))])))) \<and>
   (socket' p = Some j \<and> isOpen (sockets' p) j \<and> terminalFrame frame \<longrightarrow>
      (let p1 = socketEvent' j (WsMessage (Some frame)) p in
         socket' p1 = Some j \<and> sockets' p1 = sockets' p \<and> isOpen (sockets' p1) j \<and>
         (trim (videoIdInput p1) \<noteq> [] \<longrightarrow>
            (let p2 = downloadBtn_click p1 in
               socket' p2 = Some j \<and> length (sockets' p2) = length (sockets' p) \<and>
               isOpen (sockets' p2) j \<and> ws_url (sockets' p2 ! j) = ws_url (sockets' p ! j) \<and>
               sent (sockets' p2 ! j) = sent (sockets' p ! j) @ [downloadCommand (trim (videoIdInput p1))]))))"
proof -
  have A: "socket s = Some i \<Longrightarrow> isOpen (sockets s) i \<Longrightarrow> terminalFrame frame \<Longrightarrow>
    socketEvent i (WsMessage (Some frame)) s = messageListener (Some frame) s"
    by (simp add: socketEvent_def isOpen_def)
  have B: "socket' p = Some j \<Longrightarrow> isOpen (sockets' p) j \<Longrightarrow>
    socketEvent' j (WsMessage (Some frame)) p = messageListener' (Some frame) p"
    by (simp add: socketEvent'_def isOpen_def)
  show ?thesis
  proof (intro conjI impI)
    assume h: "socket s = Some i \<and> isOpen (sockets s) i \<and> terminalFrame frame"
    let ?s1 = "messageListener (Some frame) s"
    have s1: "socket ?s1 = Some i" "sockets ?s1 = sockets s" "isOpen (sockets ?s1) i"
      "\<not> downloadButton_disabled ?s1"
      using h messageListener_sockets[of "Some frame" s] messageListener_terminal[of frame s]
      by simp_all
    show "let s1 = socketEvent i (WsMessage (Some frame)) s in
         socket s1 = Some i \<and> sockets s1 = sockets s \<and> isOpen (sockets s1) i \<and>
         \<not> downloadButton_disabled s1 \<and>
         (trim (watchIdInput s1) \<noteq> [] \<longrightarrow>
            (let s2 = app_step e Click s1 in
               socket s2 = Some i \<and> length (sockets s2) = length (sockets s) \<and>
               isOpen (sockets s2) i \<and> ws_url (sockets s2 ! i) = ws_url (sockets s ! i) \<and>
               sent (sockets s2 ! i) = sent (sockets s ! i) @ [startCommand (trim (watchIdInput s1))]))"
      using h s1 click_open[of ?s1 i e] A
      by (auto simp: Let_def app_step_def isOpen_def)
  next
    assume h: "socket' p = Some j \<and> isOpen (sockets' p) j \<and> terminalFrame frame"
    let ?p1 = "messageListener' (Some frame) p"
    have p1: "socket' ?p1 = Some j" "sockets' ?p1 = sockets' p" "isOpen (sockets' ?p1) j"
      using h messageListener'_sockets[of "Some frame" p] by simp_all
    show "let p1 = socketEvent' j (WsMessage (Some frame)) p in
         socket' p1 = Some j \<and> sockets' p1 = sockets' p \<and> isOpen (sockets' p1) j \<and>
         (trim (videoIdInput p1) \<noteq> [] \<longrightarrow>
            (let p2 = downloadBtn_click p1 in
               socket' p2 = Some j \<and> length (sockets' p2) = length (sockets' p) \<and>
               isOpen (sockets' p2) j \<and> ws_url (sockets' p2 ! j) = ws_url (sockets' p ! j) \<and>
               sent (sockets' p2 ! j) = sent (sockets' p ! j) @ [downloadCommand (trim (videoIdInput p1))]))"
      using h p1 click'_open[of ?p1 j] B
      by (auto simp: Let_def isOpen_def)
  qed
qed

text \<open>An instance: an error frame on the open socket of the example page, then a click.\<close>

theorem terminal_frame_keeps_socket_witness:
  "terminalFrame error_frame \<and>
   sockets (socketEvent 0 (WsMessage (Some error_frame))
              (example_app\<lparr>sockets := [open_socket], socket := Some 0\<rparr>)) = [open_socket] \<and>
   sockets (app_step example_env Click
              (socketEvent 0 (WsMessage (Some error_frame))
                 (example_app\<lparr>sockets := [open_socket], socket := Some 0\<rparr>))) ! 0 =
     open_socket\<lparr>onceOpen := [js ''dQw4w9WgXcQ''], sent := [startCommand (js ''dQw4w9WgXcQ'')]\<rparr> \<and>
   length (sockets (app_step example_env Click
              (socketEvent 0 (WsMessage (Some error_frame))
                 (example_app\<lparr>sockets := [open_socket], socket := Some 0\<rparr>)))) = 1 \<and>
   sent (sockets' (downloadBtn_click
              (socketEvent' 0 (WsMessage (Some error_frame))
                 (example_preview_page\<lparr>sockets' := [open_socket], socket' := Some 0\<rparr>))) ! 0) =
     [downloadCommand (js ''dQw4w9WgXcQ'')]"
proof -
  let ?s = "example_app\<lparr>sockets := [open_socket], socket := Some 0\<rparr>"
  let ?p = "example_preview_page\<lparr>sockets' := [open_socket], socket' := Some 0\<rparr>"
  let ?s1 = "socketEvent 0 (WsMessage (Some error_frame)) ?s"
  let ?s2 = "app_step example_env Click ?s1"
  have o: "isOpen [open_socket] 0" "sent open_socket = []" "onceOpen open_socket = []"
    by (simp_all add: isOpen_def open_socket_def)
  have w: "trim (watchIdInput ?s1) = js ''dQw4w9WgXcQ''"
    using example_app_input by simp
  have v: "trim (videoIdInput (socketEvent' 0 (WsMessage (Some error_frame)) ?p)) = js ''dQw4w9WgXcQ''"
    using example_preview_facts(1) by simp
  have t: "socket ?s1 = Some 0 \<and> sockets ?s1 = [open_socket] \<and>
           socket ?s2 = Some 0 \<and> length (sockets ?s2) = 1 \<and>
           sent (sockets ?s2 ! 0) = [startCommand (js ''dQw4w9WgXcQ'')]"
    and t': "sent (sockets' (downloadBtn_click (socketEvent' 0 (WsMessage (Some error_frame)) ?p)) ! 0)
             = [downloadCommand (js ''dQw4w9WgXcQ'')]"
    using terminal_frame_keeps_socket[of ?s 0 error_frame example_env ?p 0]
      error_frame_terminal o w v example_nonempty
    by (simp_all add: Let_def)
  have s1: "?s1 = messageListener (Some error_frame) ?s"
    by (simp add: socketEvent_def open_socket_def)
  have "\<not> downloadButton_disabled ?s1"
    unfolding s1 by (rule messageListener_terminal[OF error_frame_terminal])
  then have s2: "?s2 = downloadButton_click example_env ?s1"
    by (simp add: app_step_def)
  have "sockets ?s2 = [open_socket][0 := ([open_socket] ! 0)
          \<lparr>onceOpen := onceOpen ([open_socket] ! 0) @ [js ''dQw4w9WgXcQ''],
           sent := sent ([open_socket] ! 0) @ [startCommand (js ''dQw4w9WgXcQ'')]\<rparr>]"
    unfolding s2 using click_open(2)[of ?s1 0 example_env] t w o(1) example_nonempty by simp
  then have c: "sockets ?s2 ! 0 =
     open_socket\<lparr>onceOpen := [js ''dQw4w9WgXcQ''], sent := [startCommand (js ''dQw4w9WgXcQ'')]\<rparr>"
    using o by simp
  from t t' c error_frame_terminal show ?thesis by simp
qed

subsection \<open>The start commands\<close>

lemma good_mono: "V \<subseteq> V' \<Longrightarrow> good V w \<Longrightarrow> good V' w"
  by (auto simp: good_def)

lemma wsOk_mono: "V \<subseteq> V' \<Longrightarrow> wsOk V c ws \<Longrightarrow> wsOk V' c ws"
  unfolding wsOk_def by (meson good_mono)

lemma list_all_update: "list_all P xs \<Longrightarrow> P x \<Longrightarrow> list_all P (xs[i := x])"
  using set_update_subset_insert[of xs i x] by (auto simp: list_all_iff)

lemma list_all_nth: "list_all P xs \<Longrightarrow> i < length xs \<Longrightarrow> P (xs ! i)"
  by (simp add: list_all_length)

lemma wsOk_new: "wsOk V c \<lparr>ws_url = u, readyState = r, onceOpen = [], sent = []\<rparr>"
  by (simp add: wsOk_def)

lemma wsOk_readyState: "wsOk V c ws \<Longrightarrow> wsOk V c (ws\<lparr>readyState := r\<rparr>)"
  by (simp add: wsOk_def)

lemma wsOk_fired: "wsOk V c ws \<Longrightarrow> wsOk V c (ws\<lparr>readyState := r, onceOpen := []\<rparr>)"
  by (simp add: wsOk_def)

lemma wsOk_pending: "wsOk V c ws \<Longrightarrow> good V w \<Longrightarrow> wsOk V c (ws\<lparr>onceOpen := onceOpen ws @ [w]\<rparr>)"
  by (simp add: wsOk_def)

lemma wsOk_sent: "wsOk V c ws \<Longrightarrow> good V w \<Longrightarrow> wsOk V c (ws\<lparr>sent := sent ws @ [c w]\<rparr>)"
  by (auto simp: wsOk_def)

lemma send_ok:
  assumes "list_all (wsOk V c) wss" "good V w" "send i (c w) wss = Inr wss'"
  shows "list_all (wsOk V c) wss'"
proof (cases "i < length wss")
  case False
  with assms show ?thesis by (simp add: send_def)
next
  case True
  then have "wsOk V c (wss ! i)" using assms(1) by (rule list_all_nth[rotated])
  then have "wsOk V c ((wss ! i)\<lparr>sent := sent (wss ! i) @ [c w]\<rparr>)"
    using assms(2) by (rule wsOk_sent)
  then have "list_all (wsOk V c) (wss[i := (wss ! i)\<lparr>sent := sent (wss ! i) @ [c w]\<rparr>])"
    using assms(1) by (simp add: list_all_update)
  with assms True show ?thesis
    by (cases "readyState (wss ! i)") (auto simp: send_def)
qed

lemma inv_mono: "V \<subseteq> V' \<Longrightarrow> inv V s \<Longrightarrow> inv V' s"
  using wsOk_mono[of V V' startCommand] by (auto simp: inv_def list_all_iff)

lemma sendDownloadRequest_inv:
  assumes "inv V s" "good V w"
  shows "inv V (sendDownloadRequest i w s)"
proof (cases "send i (startCommand w) (sockets s)")
  case (Inl err)
  with assms show ?thesis by (simp add: sendDownloadRequest_def)
next
  case (Inr wss)
  then have "list_all (wsOk V startCommand) wss"
    using assms send_ok[of V startCommand "sockets s" w i wss] by (simp add: inv_def)
  with Inr assms show ?thesis by (simp add: sendDownloadRequest_def inv_def)
qed

lemma fold_sendDownloadRequest_inv:
  "inv V s \<Longrightarrow> \<forall>w\<in>set ws. good V w \<Longrightarrow> inv V (fold (sendDownloadRequest i) ws s)"
  by (induction ws arbitrary: s) (simp_all add: sendDownloadRequest_inv)

lemma messageListener_inv: "inv V s \<Longrightarrow> inv V (messageListener parsed s)"
  using messageListener_sockets[of parsed s] by (simp add: inv_def)

lemma socketEvent_inv:
  assumes "inv V s"
  shows "inv V (socketEvent i ev s)"
proof (cases "i < length (sockets s)")
  case False
  with assms show ?thesis by (simp add: socketEvent_def)
next
  case True
  have ok: "wsOk V startCommand (sockets s ! i)"
    using assms True by (simp add: inv_def list_all_nth)
  show ?thesis
  proof (cases ev)
    case WsOpen
    show ?thesis
    proof (cases "readyState (sockets s ! i) = CONNECTING")
      case False
      with WsOpen True assms show ?thesis by (simp add: socketEvent_def)
    next
      case c: True
      let ?s2 = "appendLog [Lit (js ''Frontend: WebSocket connection established.'')] ''info''
                   (s\<lparr>sockets := (sockets s)[i := (sockets s ! i)\<lparr>readyState := OPEN, onceOpen := []\<rparr>]\<rparr>)"
      have "inv V ?s2"
        using assms ok by (simp add: inv_def list_all_update wsOk_fired)
      moreover have "\<forall>w\<in>set (onceOpen (sockets s ! i)). good V w"
        using ok by (simp add: wsOk_def)
      ultimately have "inv V (fold (sendDownloadRequest i) (onceOpen (sockets s ! i)) ?s2)"
        by (rule fold_sendDownloadRequest_inv)
      with WsOpen True c show ?thesis by (simp add: socketEvent_def Let_def)
    qed
  next
    case (WsMessage parsed)
    with True assms show ?thesis by (simp add: socketEvent_def messageListener_inv)
  next
    case WsClose
    with True assms ok show ?thesis
      by (simp add: socketEvent_def closeListener_def inv_def list_all_update wsOk_readyState)
  next
    case WsError
    with True assms show ?thesis by (simp add: socketEvent_def errorListener_def inv_def)
  qed
qed

lemma connectSocket_inv:
  assumes "inv V s"
  shows "inv V (snd (connectSocket e s))"
proof (cases "case socket s of None \<Rightarrow> False | Some i \<Rightarrow> isOpen (sockets s) i")
  case True
  then show ?thesis using assms by (simp add: connectSocket_def)
next
  case False
  show ?thesis
    using assms connectSocket_new(2)[OF False, of e]
    by (simp add: inv_def wsOk_new)
qed

lemma click_inv:
  assumes "inv V s"
  shows "inv V (downloadButton_click e s)"
proof (cases "trim (watchIdInput s) = []")
  case True
  then show ?thesis
    using assms by (simp add: downloadButton_click_def sanitizeWatchId_def inv_def)
next
  case False
  let ?w = "trim (watchIdInput s)"
  let ?s2 = "setStatus [Lit (js ''Requesting subtitles...'')]
               (s\<lparr>summaryBeginning := JStr (js ''Downloading...''),
                  summaryEnding := JStr (js ''Downloading...''),
                  fullText := JStr [], latestText := JStr [],
                  copyButton_disabled := True, downloadButton_disabled := True\<rparr>)"
  have g: "good V ?w" using assms False by (auto simp: good_def inv_def)
  have "inv V ?s2" using assms by (simp add: inv_def)
  then have i3: "inv V (snd (connectSocket e ?s2))" by (rule connectSocket_inv)
  show ?thesis
  proof (cases "fst (connectSocket e ?s2)")
    case None
    with False i3 show ?thesis
      by (simp add: downloadButton_click_def sanitizeWatchId_def Let_def split_beta)
  next
    case (Some ws)
    let ?s3 = "snd (connectSocket e ?s2)"
    have i4: "inv V (addOnceOpen ws ?w ?s3)"
    proof (cases "ws < length (sockets ?s3)")
      case True
      then have "wsOk V startCommand (sockets ?s3 ! ws)"
        using i3 by (simp add: inv_def list_all_nth)
      then show ?thesis
        using i3 g by (simp add: addOnceOpen_def inv_def list_all_update wsOk_pending)
    next
      case beyond: False
      then show ?thesis using i3 by (simp add: addOnceOpen_def inv_def list_update_beyond)
    qed
    then have "inv V (sendDownloadRequest ws ?w (addOnceOpen ws ?w ?s3))"
      using g by (rule sendDownloadRequest_inv)
    with i4 Some False show ?thesis
      by (simp add: downloadButton_click_def sanitizeWatchId_def Let_def split_beta)
  qed
qed

lemma step_inv: "inv V s \<Longrightarrow> inv (V \<union> typed [ev]) (app_step e ev s)"
proof (cases ev)
  case Click
  assume "inv V s"
  then have "inv V (app_step e ev s)" using Click by (simp add: app_step_def click_inv)
  then show ?thesis by (rule inv_mono[rotated]) simp
next
  case (Typed v)
  assume "inv V s"
  then have "inv (V \<union> typed [ev]) s" by (rule inv_mono[rotated]) simp
  then show ?thesis using Typed by (simp add: app_step_def inv_def typed_def)
next
  case (Address v)
  assume "inv V s"
  then have "inv V (app_step e ev s)"
    using Address by (simp add: app_step_def inv_def split: option.splits)
  then show ?thesis by (rule inv_mono[rotated]) simp
next
  case (Copy outcome)
  assume "inv V s"
  then have "inv V (app_step e ev s)" using Copy by (simp add: app_step_def inv_def)
  then show ?thesis by (rule inv_mono[rotated]) simp
next
  case (Socket i sev)
  assume "inv V s"
  then have "inv V (app_step e ev s)" using Socket by (simp add: app_step_def socketEvent_inv)
  then show ?thesis by (rule inv_mono[rotated]) simp
qed

lemma run_inv: "inv V s \<Longrightarrow> inv (V \<union> typed evs) (app_run e evs s)"
proof (induction evs arbitrary: V s)
  case Nil
  then show ?case by (simp add: app_run_def typed_def)
next
  case (Cons ev evs)
  have "inv (V \<union> typed [ev] \<union> typed evs) (app_run e evs (app_step e ev s))"
    using Cons.IH[OF step_inv[OF Cons.prems]] .
  moreover have "V \<union> typed [ev] \<union> typed evs = V \<union> typed (ev # evs)"
    by (auto simp: typed_def)
  ultimately show ?case by (simp add: app_run_def)
qed
lemma inv'_mono: "V \<subseteq> V' \<Longrightarrow> inv' V s \<Longrightarrow> inv' V' s"
  using wsOk_mono[of V V' downloadCommand] by (auto simp: inv'_def list_all_iff)

lemma sendDownload'_inv:
  assumes "inv' V s" "good V w"
  shows "inv' V (sendDownload' w s)"
proof (cases "socket' s")
  case None
  with assms show ?thesis by (simp add: sendDownload'_def)
next
  case (Some i)
  show ?thesis
  proof (cases "send i (downloadCommand w) (sockets' s)")
    case (Inl err)
    with Some assms show ?thesis by (simp add: sendDownload'_def)
  next
    case (Inr wss)
    then have "list_all (wsOk V downloadCommand) wss"
      using assms send_ok[of V downloadCommand "sockets' s" w i wss] by (simp add: inv'_def)
    with Inr Some assms show ?thesis by (simp add: sendDownload'_def inv'_def)
  qed
qed

lemma fold_sendDownload'_inv:
  "inv' V s \<Longrightarrow> \<forall>w\<in>set ws. good V w \<Longrightarrow> inv' V (fold sendDownload' ws s)"
  by (induction ws arbitrary: s) (simp_all add: sendDownload'_inv)

lemma socketEvent'_inv:
  assumes "inv' V s"
  shows "inv' V (socketEvent' i ev s)"
proof (cases "i < length (sockets' s)")
  case False
  with assms show ?thesis by (simp add: socketEvent'_def)
next
  case True
  have ok: "wsOk V downloadCommand (sockets' s ! i)"
    using assms True by (simp add: inv'_def list_all_nth)
  show ?thesis
  proof (cases ev)
    case WsOpen
    show ?thesis
    proof (cases "readyState (sockets' s ! i) = CONNECTING")
      case False
      with WsOpen True assms show ?thesis by (simp add: socketEvent'_def)
    next
      case c: True
      let ?s2 = "appendLog' [Lit (js ''WebSocket connected.'')]
                   (s\<lparr>sockets' := (sockets' s)[i := (sockets' s ! i)\<lparr>readyState := OPEN, onceOpen := []\<rparr>]\<rparr>)"
      have "inv' V ?s2"
        using assms ok by (simp add: inv'_def appendLog'_def list_all_update wsOk_fired)
      moreover have "\<forall>w\<in>set (onceOpen (sockets' s ! i)). good V w"
        using ok by (simp add: wsOk_def)
      ultimately have "inv' V (fold sendDownload' (onceOpen (sockets' s ! i)) ?s2)"
        by (rule fold_sendDownload'_inv)
      with WsOpen True c show ?thesis by (simp add: socketEvent'_def Let_def)
    qed
  next
    case (WsMessage parsed)
    with True assms messageListener'_sockets[of parsed s] show ?thesis
      by (simp add: socketEvent'_def inv'_def)
  next
    case WsClose
    with True assms ok show ?thesis
      by (simp add: socketEvent'_def closeListener'_def appendLog'_def inv'_def list_all_update
          wsOk_readyState)
  next
    case WsError
    with True assms show ?thesis by (simp add: socketEvent'_def)
  qed
qed

lemma connectSocket'_inv: "inv' V s \<Longrightarrow> inv' V (connectSocket' s)"
  by (simp add: connectSocket'_def inv'_def wsOk_new)

lemma click'_inv:
  assumes "inv' V s"
  shows "inv' V (downloadBtn_click s)"
proof (cases "trim (videoIdInput s) = []")
  case True
  then show ?thesis
    using assms by (simp add: downloadBtn_click_def setStatus'_def inv'_def)
next
  case False
  let ?w = "trim (videoIdInput s)"
  let ?s1 = "s\<lparr>logArea := [], subtitleStart := js ''-'', subtitleEnd := js ''-'',
                languageEl := JStr (js ''-''), fullSubtitle := JStr [], copyBtn_disabled := True\<rparr>"
  let ?s2 = "connectSocket' ?s1"
  let ?s3 = "case socket' ?s2 of
               None \<Rightarrow> ?s2
             | Some i \<Rightarrow>
                 if \<not> isOpen (sockets' ?s2) i then
                   ?s2\<lparr>sockets' := (sockets' ?s2)
                         [i := (sockets' ?s2 ! i)\<lparr>onceOpen := onceOpen (sockets' ?s2 ! i) @ [?w]\<rparr>]\<rparr>
                 else sendDownload' ?w ?s2"
  have g: "good V ?w" using assms False by (auto simp: good_def inv'_def)
  have "inv' V ?s1" using assms by (simp add: inv'_def)
  then have i2: "inv' V ?s2" by (rule connectSocket'_inv)
  have i3: "inv' V ?s3"
  proof (cases "socket' ?s2")
    case None
    with i2 show ?thesis by simp
  next
    case (Some i)
    show ?thesis
    proof (cases "isOpen (sockets' ?s2) i")
      case True
      with Some sendDownload'_inv[OF i2 g] show ?thesis by simp
    next
      case no: False
      have "inv' V (?s2\<lparr>sockets' := (sockets' ?s2)
                         [i := (sockets' ?s2 ! i)\<lparr>onceOpen := onceOpen (sockets' ?s2 ! i) @ [?w]\<rparr>]\<rparr>)"
      proof (cases "i < length (sockets' ?s2)")
        case True
        then have "wsOk V downloadCommand (sockets' ?s2 ! i)"
          using i2 by (simp add: inv'_def list_all_nth)
        then show ?thesis
          using i2 g by (simp add: inv'_def list_all_update wsOk_pending)
      next
        case beyond: False
        then show ?thesis using i2 by (simp add: inv'_def list_update_beyond)
      qed
      with Some no show ?thesis by simp
    qed
  qed
  have "downloadBtn_click s = setStatus' (js ''Downloading...'') (?s3\<lparr>downloadBtn_disabled := True\<rparr>)"
    using False by (simp add: downloadBtn_click_def Let_def)
  with i3 show ?thesis by (simp add: inv'_def setStatus'_def)
qed

lemma step'_inv: "inv' V s \<Longrightarrow> inv' (V \<union> typed' [ev]) (preview_step ev s)"
proof (cases ev)
  case Click'
  assume "inv' V s"
  then have "inv' V (preview_step ev s)" using Click' by (simp add: preview_step_def click'_inv)
  then show ?thesis by (rule inv'_mono[rotated]) simp
next
  case (Typed' v)
  assume "inv' V s"
  then have "inv' (V \<union> typed' [ev]) s" by (rule inv'_mono[rotated]) simp
  then show ?thesis using Typed' by (simp add: preview_step_def inv'_def typed'_def)
next
  case (Copy' outcome)
  assume "inv' V s"
  then have "inv' V (preview_step ev s)" using Copy' by (simp add: preview_step_def inv'_def)
  then show ?thesis by (rule inv'_mono[rotated]) simp
next
  case (Socket' i sev)
  assume "inv' V s"
  then have "inv' V (preview_step ev s)" using Socket' by (simp add: preview_step_def socketEvent'_inv)
  then show ?thesis by (rule inv'_mono[rotated]) simp
qed

lemma run'_inv: "inv' V s \<Longrightarrow> inv' (V \<union> typed' evs) (preview_run evs s)"
proof (induction evs arbitrary: V s)
  case Nil
  then show ?case by (simp add: preview_run_def typed'_def)
next
  case (Cons ev evs)
  have "inv' (V \<union> typed' [ev] \<union> typed' evs) (preview_run evs (preview_step ev s))"
    using Cons.IH[OF step'_inv[OF Cons.prems]] .
  moreover have "V \<union> typed' [ev] \<union> typed' evs = V \<union> typed' (ev # evs)"
    by (auto simp: typed'_def)
  ultimately show ?case by (simp add: preview_run_def)
qed

lemma inv_sent:
  assumes "inv V s" "ws \<in> set (sockets s)" "frame \<in> set (sent ws)"
  shows "\<exists>v\<in>V. trim v \<noteq> [] \<and> frame = startCommand (trim v)"
proof -
  have "wsOk V startCommand ws" using assms(1,2) by (simp add: inv_def list_all_iff)
  then obtain w where "good V w" "frame = startCommand w"
    using assms(3) unfolding wsOk_def by blast
  then show ?thesis unfolding good_def by blast
qed

lemma inv'_sent:
  assumes "inv' V s" "ws \<in> set (sockets' s)" "frame \<in> set (sent ws)"
  shows "\<exists>v\<in>V. trim v \<noteq> [] \<and> frame = downloadCommand (trim v)"
proof -
  have "wsOk V downloadCommand ws" using assms(1,2) by (simp add: inv'_def list_all_iff)
  then obtain w where "good V w" "frame = downloadCommand w"
    using assms(3) unfolding wsOk_def by blast
  then show ?thesis unfolding good_def by blast
qed

text \<open>
  C5, as amended.  In a session of \<open>docs/app.js\<close> that starts without sockets, every frame
  ever sent on any socket is the object with exactly the fields \<open>action\<close>, equal to
  \<open>"download"\<close>, and \<open>watch_id\<close>, equal to the non-empty trimmed form of a watch id that
  was in the input field.  In a session of the client with the preview every frame sent has
  instead exactly the fields \<open>type\<close>, equal to \<open>"download"\<close>, and \<open>id\<close>, the trimmed
  input.
\<close>

theorem start_commands:
  "(sockets s = [] \<longrightarrow>
      (\<forall>ws\<in>set (sockets (app_run e evs s)). \<forall>frame\<in>set (sent ws).
          \<exists>v\<in>insert (watchIdInput s) {v. Typed v \<in> set evs}.
             trim v \<noteq> [] \<and>
             frame = JObj [(js ''action'', JStr (js ''download'')), (js ''watch_id'', JStr (trim v))])) \<and>
   (sockets' p = [] \<longrightarrow>
      (\<forall>ws\<in>set (sockets' (preview_run evs' p)). \<forall>frame\<in>set (sent ws).
          \<exists>v\<in>insert (videoIdInput p) {v. Typed' v \<in> set evs'}.
             trim v \<noteq> [] \<and>
             frame = JObj [(js ''type'', JStr (js ''download'')), (js ''id'', JStr (trim v))]))"
proof (intro conjI impI ballI)
  fix ws frame
  assume "sockets s = []" and ws: "ws \<in> set (sockets (app_run e evs s))" "frame \<in> set (sent ws)"
  then have "inv {watchIdInput s} s" by (simp add: inv_def)
  then have "inv ({watchIdInput s} \<union> typed evs) (app_run e evs s)" by (rule run_inv)
  from inv_sent[OF this ws]
  show "\<exists>v\<in>insert (watchIdInput s) {v. Typed v \<in> set evs}.
             trim v \<noteq> [] \<and>
             frame = JObj [(js ''action'', JStr (js ''download'')), (js ''watch_id'', JStr (trim v))]"
    by (simp add: typed_def startCommand_def)
next
  fix ws frame
  assume "sockets' p = []" and ws: "ws \<in> set (sockets' (preview_run evs' p))" "frame \<in> set (sent ws)"
  then have "inv' {videoIdInput p} p" by (simp add: inv'_def)
  then have "inv' ({videoIdInput p} \<union> typed' evs') (preview_run evs' p)" by (rule run'_inv)
  from inv'_sent[OF this ws]
  show "\<exists>v\<in>insert (videoIdInput p) {v. Typed' v \<in> set evs'}.
             trim v \<noteq> [] \<and>
             frame = JObj [(js ''type'', JStr (js ''download'')), (js ''id'', JStr (trim v))]"
    by (simp add: typed'_def downloadCommand_def)
qed

text \<open>Instances: a click on the example page of each client, then the socket opens.\<close>

lemma example_preview_run:
  "sockets' (preview_run [Click', Socket' 0 WsOpen] example_preview_page) =
     [\<lparr>ws_url = js ''ws://localhost:8765'', readyState = OPEN, onceOpen = [],
       sent = [downloadCommand (js ''dQw4w9WgXcQ'')]\<rparr>]"
proof -
  let ?p1 = "downloadBtn_click example_preview_page"
  have r: "preview_run [Click', Socket' 0 WsOpen] example_preview_page = socketEvent' 0 WsOpen ?p1"
    using example_preview_facts(4) by (simp add: preview_run_def preview_step_def)
  show ?thesis
    unfolding r
    using click'_new_socket[of example_preview_page] example_preview_facts example_nonempty
    by (intro open'_sends_pending) simp_all
qed

lemma example_app_run:
  "sockets (app_run example_env [Click, Socket 0 WsOpen] example_app) =
     [\<lparr>ws_url = fst (normalizeSocketUrl example_env (backendAddressValue example_app) example_app),
       readyState = OPEN, onceOpen = [], sent = [startCommand (js ''dQw4w9WgXcQ'')]\<rparr>]"
proof -
  let ?s1 = "downloadButton_click example_env example_app"
  have r: "app_run example_env [Click, Socket 0 WsOpen] example_app = socketEvent 0 WsOpen ?s1"
    using example_app_facts(4) by (simp add: app_run_def app_step_def)
  have "sockets ?s1 =
          [\<lparr>ws_url = fst (normalizeSocketUrl example_env (backendAddressValue example_app) example_app),
            readyState = CONNECTING, onceOpen = [js ''dQw4w9WgXcQ''], sent = []\<rparr>]"
    using click_new_socket_full[of example_app example_env] example_app_facts example_app_input
    by simp
  then show ?thesis
    unfolding r by (rule open_sends_pending)
qed

theorem start_commands_witness:
  "sockets example_app = [] \<and> sockets' example_preview_page = [] \<and>
   set (sent (sockets (app_run example_env [Click, Socket 0 WsOpen] example_app) ! 0)) =
     {JObj [(js ''action'', JStr (js ''download'')), (js ''watch_id'', JStr (js ''dQw4w9WgXcQ''))]} \<and>
   set (sent (sockets' (preview_run [Click', Socket' 0 WsOpen] example_preview_page) ! 0)) =
     {JObj [(js ''type'', JStr (js ''download'')), (js ''id'', JStr (js ''dQw4w9WgXcQ''))]}"
proof -
  let ?run = "app_run example_env [Click, Socket 0 WsOpen] example_app"
  let ?run' = "preview_run [Click', Socket' 0 WsOpen] example_preview_page"
  note t = start_commands[of example_app example_env "[Click, Socket 0 WsOpen]" example_preview_page
      "[Click', Socket' 0 WsOpen]"]
  have "\<forall>frame\<in>set (sent (sockets ?run ! 0)).
          \<exists>v\<in>insert (watchIdInput example_app) {v. Typed v \<in> set [Click, Socket 0 WsOpen]}.
             trim v \<noteq> [] \<and>
             frame = JObj [(js ''action'', JStr (js ''download'')), (js ''watch_id'', JStr (trim v))]"
    using t example_app_facts(3) example_app_run by simp
  then have a: "\<forall>frame\<in>set (sent (sockets ?run ! 0)).
      frame = JObj [(js ''action'', JStr (js ''download'')), (js ''watch_id'', JStr (js ''dQw4w9WgXcQ''))]"
    using example_app_input by simp
  have "\<forall>frame\<in>set (sent (sockets' ?run' ! 0)).
          \<exists>v\<in>insert (videoIdInput example_preview_page) {v. Typed' v \<in> set [Click', Socket' 0 WsOpen]}.
             trim v \<noteq> [] \<and>
             frame = JObj [(js ''type'', JStr (js ''download'')), (js ''id'', JStr (trim v))]"
    using t example_preview_facts(3) example_preview_run by simp
  then have b: "\<forall>frame\<in>set (sent (sockets' ?run' ! 0)).
      frame = JObj [(js ''type'', JStr (js ''download'')), (js ''id'', JStr (js ''dQw4w9WgXcQ''))]"
    using example_preview_facts(1) by simp
  have ne: "sent (sockets ?run ! 0) \<noteq> []" "sent (sockets' ?run' ! 0) \<noteq> []"
    using example_app_run example_preview_run by simp_all
  have 1: "set (sent (sockets ?run ! 0)) =
     {JObj [(js ''action'', JStr (js ''download'')), (js ''watch_id'', JStr (js ''dQw4w9WgXcQ''))]}"
    using a ne(1) by (cases "sent (sockets ?run ! 0)") auto
  have 2: "set (sent (sockets' ?run' ! 0)) =
     {JObj [(js ''type'', JStr (js ''download'')), (js ''id'', JStr (js ''dQw4w9WgXcQ''))]}"
    using b ne(2) by (cases "sent (sockets' ?run' ! 0)") auto
  from 1 2 example_app_facts(3) example_preview_facts(3) show ?thesis by blast
qed

text \<open>
  The claim as stated fails on the client with the preview: its start command has the
  fields \<open>type\<close> and \<open>id\<close>, not \<open>action\<close> and \<open>watch_id\<close>.
\<close>

theorem preview_start_command_counterexample:
  "sent (sockets' (preview_run [Click', Socket' 0 WsOpen] example_preview_page) ! 0) =
     [JObj [(js ''type'', JStr (js ''download'')), (js ''id'', JStr (js ''dQw4w9WgXcQ''))]]"
  by (simp add: example_preview_run downloadCommand_def)

subsection \<open>A connection that fails\<close>

lemma closed_socketEvent:
  assumes "allClosed s"
  shows "allClosed (socketEvent i ev s) \<and>
         downloadButton_disabled (socketEvent i ev s) = downloadButton_disabled s"
proof (cases "i < length (sockets s)")
  case False
  with assms show ?thesis by (simp add: socketEvent_def)
next
  case True
  then have "readyState (sockets s ! i) = CLOSED"
    using assms by (simp add: allClosed_def list_all_length)
  with True assms show ?thesis
    by (cases ev) (simp_all add: socketEvent_def errorListener_def allClosed_def)
qed

lemma stuck_step:
  "allClosed s \<Longrightarrow> downloadButton_disabled s \<Longrightarrow>
     allClosed (app_step e ev s) \<and> downloadButton_disabled (app_step e ev s)"
  using closed_socketEvent[of s]
  by (cases ev) (simp_all add: app_step_def allClosed_def split: option.splits)

lemma stuck_run:
  "allClosed s \<Longrightarrow> downloadButton_disabled s \<Longrightarrow>
     allClosed (app_run e evs s) \<and> downloadButton_disabled (app_run e evs s)"
proof (induction evs arbitrary: s)
  case Nil
  then show ?case by (simp add: app_run_def)
next
  case (Cons ev evs)
  from stuck_step[OF Cons.prems, of e ev] Cons.IH[of "app_step e ev s"]
  show ?case by (simp add: app_run_def)
qed

text \<open>
  C1 on \<open>docs/app.js\<close>.  A click with a watch id disables the download button and opens a
  socket.  When the connection fails (the socket's \<open>error\<close> and \<open>close\<close> events), the
  listeners only write to the log: the button is still disabled, the socket is closed, and
  whatever happens afterwards on the page the button stays disabled.
\<close>

theorem socket_failure_leaves_button_disabled:
  "\<not> downloadButton_disabled example_app \<and>
   downloadButton_disabled (app_run example_env [Click, Socket 0 WsError, Socket 0 WsClose] example_app) \<and>
   map readyState (sockets (app_run example_env [Click, Socket 0 WsError, Socket 0 WsClose] example_app))
     = [CLOSED] \<and>
   (\<forall>evs. downloadButton_disabled
            (app_run example_env ([Click, Socket 0 WsError, Socket 0 WsClose] @ evs) example_app))"
proof -
  let ?s1 = "downloadButton_click example_env example_app"
  let ?s3 = "app_run example_env [Click, Socket 0 WsError, Socket 0 WsClose] example_app"
  have d1: "downloadButton_disabled ?s1"
    by (rule click_disables) (rule example_app_facts)
  have "map readyState (sockets ?s1) = [CONNECTING]"
    using click_new_socket[of example_app example_env] example_app_facts by simp
  then obtain x where x: "sockets ?s1 = [x]" "readyState x = CONNECTING"
    by (cases "sockets ?s1") auto
  have s3: "?s3 = socketEvent 0 WsClose (socketEvent 0 WsError ?s1)"
    using example_app_facts(4) by (simp add: app_run_def app_step_def)
  have d3: "downloadButton_disabled ?s3"
    unfolding s3 using d1 by (simp add: socketEvent_no_message_disabled)
  have e1: "sockets (socketEvent 0 WsError ?s1) = [x]"
    using x by (simp add: socketEvent_def errorListener_def)
  have e2: "sockets ?s3 = [x\<lparr>readyState := CLOSED\<rparr>]"
    unfolding s3 using e1 x(2) by (simp add: socketEvent_def closeListener_def)
  then have r3: "map readyState (sockets ?s3) = [CLOSED]"
    by simp
  have c3: "allClosed ?s3"
    unfolding allClosed_def e2 by simp
  have "downloadButton_disabled (app_run example_env ([Click, Socket 0 WsError, Socket 0 WsClose] @ evs) example_app)" for evs
    unfolding app_run_append using stuck_run[OF c3 d3] by simp
  with d3 r3 example_app_facts(4) show ?thesis by blast
qed

section \<open>The reservation client\<close>

subsection \<open>Creating a reservation\<close>

text \<open>
  The claim as stated fails: a response with status 200 whose body has a \<open>reservation_id\<close>
  field holding the empty string makes \<open>createReservation\<close> throw.
\<close>

theorem createReservation_counterexample:
  "ok \<lparr>status = 200, json_body = Some (JObj [(js ''reservation_id'', JStr [])])\<rparr> \<and>
   map_of [(js ''reservation_id'', JStr [])] (js ''reservation_id'') = Some (JStr []) \<and>
   fst (createReservation (answering 200 (Some (JObj [(js ''reservation_id'', JStr [])])))
          (js ''http://localhost:8080'') (js ''dQw4w9WgXcQ'') example_reservation_page)
     = Inl (Error (JStr (js ''Backend did not return a reservation ID.'')))"
  by (simp add: createReservation_def answering_def ok_def Let_def nullish_def)

text \<open>
  C6, as amended.  \<open>createReservation\<close> returns a reservation id if and only if the
  response is 2xx and the \<open>reservation_id\<close> of its JSON body is truthy, and it then returns
  that value.  On a response that is not 2xx it throws an error carrying the body's
  \<open>message\<close> when that is truthy, and the default message when the body is absent or
  unparsable or has no truthy \<open>message\<close>; a body that is \<open>null\<close> makes it throw a TypeError.
  A 2xx response without a truthy \<open>reservation_id\<close> throws, and so does a \<open>fetch\<close> that
  rejects.
\<close>

theorem createReservation_outcomes:
  fixes b baseUrl watchId s
  defines "result \<equiv> fst (createReservation b baseUrl watchId s)"
    and "fetched \<equiv> reservationResponse b baseUrl watchId"
  shows
  "((\<exists>rid. result = Inr rid) \<longleftrightarrow>
      (\<exists>response payload. fetched = Inr response \<and> ok response \<and>
          json_body response = Some payload \<and> truthy (field payload (js ''reservation_id'')))) \<and>
   (\<forall>response payload. fetched = Inr response \<and> ok response \<and>
        json_body response = Some payload \<and> truthy (field payload (js ''reservation_id''))
      \<longrightarrow> result = Inr (field payload (js ''reservation_id''))) \<and>
   (\<forall>response. fetched = Inr response \<and> \<not> ok response \<longrightarrow>
      result =
        (case json_body response of
           None \<Rightarrow> Inl (Error (JStr (js ''Failed to create reservation.'')))
         | Some payload \<Rightarrow>
             if nullish payload then Inl TypeError
             else if truthy (field payload (js ''message''))
             then Inl (Error (field payload (js ''message'')))
             else Inl (Error (JStr (js ''Failed to create reservation.''))))) \<and>
   (\<forall>response. fetched = Inr response \<and> ok response \<and>
        (case json_body response of None \<Rightarrow> True
         | Some payload \<Rightarrow> \<not> truthy (field payload (js ''reservation_id'')))
      \<longrightarrow> (\<exists>err. result = Inl err)) \<and>
   (\<forall>err. fetched = Inl err \<longrightarrow> result = Inl err)"
proof -
  have nf: "nullish p \<Longrightarrow> \<not> truthy (field p k)" for p k
    by (auto simp: nullish_def)
  show ?thesis
    unfolding result_def fetched_def reservationResponse_def createReservation_def Let_def
    by (auto simp: jsOr_def nullish_def split: sum.splits option.splits)
qed

text \<open>Instances: status 200 with a reservation id, status 400 with a message, status 500
  and status 200 without a body, and a backend that cannot be reached.\<close>

lemma r1_nonempty: "js ''r1'' \<noteq> []"
  by (simp add: js_def)

theorem createReservation_outcomes_witness:
  "fst (createReservation (answering 200 (Some (JObj [(js ''reservation_id'', JStr (js ''r1''))])))
          (js ''http://localhost:8080'') (js ''dQw4w9WgXcQ'') example_reservation_page)
     = Inr (JStr (js ''r1'')) \<and>
   fst (createReservation (answering 400 (Some (JObj [(js ''message'', JStr (js ''r1''))])))
          (js ''http://localhost:8080'') (js ''dQw4w9WgXcQ'') example_reservation_page)
     = Inl (Error (JStr (js ''r1''))) \<and>
   fst (createReservation (answering 500 None)
          (js ''http://localhost:8080'') (js ''dQw4w9WgXcQ'') example_reservation_page)
     = Inl (Error (JStr (js ''Failed to create reservation.''))) \<and>
   (\<exists>err. fst (createReservation (answering 200 None)
          (js ''http://localhost:8080'') (js ''dQw4w9WgXcQ'') example_reservation_page) = Inl err) \<and>
   fst (createReservation unreachable
          (js ''http://localhost:8080'') (js ''dQw4w9WgXcQ'') example_reservation_page)
     = Inl NetworkError"
proof -
  let ?b = "answering 200 (Some (JObj [(js ''reservation_id'', JStr (js ''r1''))]))"
  let ?c = "answering 400 (Some (JObj [(js ''message'', JStr (js ''r1''))]))"
  have r: "reservationResponse (answering st body) (js ''http://localhost:8080'') (js ''dQw4w9WgXcQ'')
             = Inr \<lparr>status = st, json_body = body\<rparr>" for st body
    by (simp add: reservationResponse_def answering_def)
  have u: "reservationResponse unreachable (js ''http://localhost:8080'') (js ''dQw4w9WgXcQ'')
             = Inl NetworkError"
    by (simp add: reservationResponse_def unreachable_def)
  have o: "ok \<lparr>status = 200, json_body = x\<rparr>" "\<not> ok \<lparr>status = 400, json_body = x\<rparr>"
    "\<not> ok \<lparr>status = 500, json_body = x\<rparr>" for x
    by (simp_all add: ok_def)
  have 1: "fst (createReservation ?b (js ''http://localhost:8080'') (js ''dQw4w9WgXcQ'')
                  example_reservation_page) = Inr (JStr (js ''r1''))"
    using createReservation_outcomes[of ?b "js ''http://localhost:8080''" "js ''dQw4w9WgXcQ''"
        example_reservation_page] r o r1_nonempty
    by simp
  have 2: "fst (createReservation ?c (js ''http://localhost:8080'') (js ''dQw4w9WgXcQ'')
                  example_reservation_page) = Inl (Error (JStr (js ''r1'')))"
    using createReservation_outcomes[of ?c "js ''http://localhost:8080''" "js ''dQw4w9WgXcQ''"
        example_reservation_page] r o r1_nonempty
    by (simp add: nullish_def)
  have 3: "fst (createReservation (answering 500 None) (js ''http://localhost:8080'')
                  (js ''dQw4w9WgXcQ'') example_reservation_page)
             = Inl (Error (JStr (js ''Failed to create reservation.'')))"
    using createReservation_outcomes[of "answering 500 None" "js ''http://localhost:8080''"
        "js ''dQw4w9WgXcQ''" example_reservation_page] r o
    by simp
  have 4: "\<exists>err. fst (createReservation (answering 200 None) (js ''http://localhost:8080'')
                  (js ''dQw4w9WgXcQ'') example_reservation_page) = Inl err"
    using createReservation_outcomes[of "answering 200 None" "js ''http://localhost:8080''"
        "js ''dQw4w9WgXcQ''" example_reservation_page] r o
    by simp
  have 5: "fst (createReservation unreachable (js ''http://localhost:8080'')
                  (js ''dQw4w9WgXcQ'') example_reservation_page) = Inl NetworkError"
    using createReservation_outcomes[of unreachable "js ''http://localhost:8080''"
        "js ''dQw4w9WgXcQ''" example_reservation_page] u
    by simp
  from 1 2 3 4 5 show ?thesis by blast
qed

subsection \<open>Waiting for the events\<close>

lemma dispatch_closed: "closed w \<Longrightarrow> dispatch ev w = w"
  by (simp add: dispatch_def)

lemma fold_dispatch_closed: "closed w \<Longrightarrow> fold dispatch evs w = w"
  by (induction evs) (simp_all add: dispatch_closed)

lemma field_empty [simp]: "field (JObj []) k = JUndefined"
  by simp

lemma jsOr_undefined [simp]: "jsOr JUndefined v = v"
  by (simp add: jsOr_def)

lemma nullish_obj [simp]: "\<not> nullish (JObj kvs)"
  by (simp add: nullish_def)

lemma dispatch_nonterminal:
  assumes "\<not> closed w" "\<not> terminalEvent ev"
  shows "\<not> closed (dispatch ev w)" "settled (dispatch ev w) = settled w"
    "calls (page_state (dispatch ev w)) = calls (page_state w)"
    "downloadButton_disabled (page_state (dispatch ev w)) = downloadButton_disabled (page_state w)"
  using assms
  by (cases ev; simp add: dispatch_def terminalEvent_def terminalOutcome_def openListener_def
      logListener_def appendLog_def split: option.splits)+

lemma dispatch_terminal:
  assumes "\<not> closed w" "settled w = None" "terminalEvent ev"
  shows "closed (dispatch ev w)" "settled (dispatch ev w) = terminalOutcome ev"
    "calls (page_state (dispatch ev w)) = calls (page_state w) @ streamCalls [ev]"
    "downloadButton_disabled (page_state (dispatch ev w)) = downloadButton_disabled (page_state w)"
  using assms
  by (cases ev; simp add: dispatch_def terminalEvent_def terminalOutcome_def streamCalls_def
      completedListener_def errorEventListener_def onerror_def settle_def eventSource_close_def
      Let_def split: option.splits)+

lemma fold_dispatch:
  assumes "\<not> closed w" "settled w = None"
  shows "settled (fold dispatch evs w) = firstOutcome evs \<and>
         closed (fold dispatch evs w) = (find terminalEvent evs \<noteq> None) \<and>
         calls (page_state (fold dispatch evs w)) = calls (page_state w) @ streamCalls evs \<and>
         downloadButton_disabled (page_state (fold dispatch evs w))
           = downloadButton_disabled (page_state w)"
  using assms
proof (induction evs arbitrary: w)
  case Nil
  then show ?case by (simp add: firstOutcome_def streamCalls_def)
next
  case (Cons ev evs)
  show ?case
  proof (cases "terminalEvent ev")
    case True
    have c: "closed (dispatch ev w)"
      using Cons.prems True by (rule dispatch_terminal)
    have "fold dispatch (ev # evs) w = dispatch ev w"
      using c by (simp add: fold_dispatch_closed)
    then show ?thesis
      using True c dispatch_terminal(2-4)[OF Cons.prems True]
      by (simp add: firstOutcome_def streamCalls_def)
  next
    case False
    have o: "\<not> closed (dispatch ev w)" "settled (dispatch ev w) = None"
      using dispatch_nonterminal(1,2)[OF Cons.prems(1) False] Cons.prems(2) by simp_all
    from Cons.IH[OF o] False dispatch_nonterminal(3,4)[OF Cons.prems(1) False]
    show ?thesis by (simp add: firstOutcome_def streamCalls_def)
  qed
qed

lemma waitForEvents_result:
  assumes "encodeURIComponent e rid = Some enc"
  shows "fst (waitForEvents e b baseUrl rid s) =
           firstOutcome (eventStream b (buildEndpointUrl baseUrl (js ''events/'' @ enc)))"
    and "calls (snd (waitForEvents e b baseUrl rid s)) =
           calls s @ NewEventSource (buildEndpointUrl baseUrl (js ''events/'' @ enc))
             # streamCalls (eventStream b (buildEndpointUrl baseUrl (js ''events/'' @ enc)))"
proof -
  let ?url = "buildEndpointUrl baseUrl (js ''events/'' @ enc)"
  let ?w0 = "\<lparr>page_state = s\<lparr>calls := calls s @ [NewEventSource ?url]\<rparr>, closed = False, settled = None\<rparr>"
  have w: "\<not> closed ?w0" "settled ?w0 = None" by simp_all
  have e: "waitForEvents e b baseUrl rid s =
             (settled (fold dispatch (eventStream b ?url) ?w0),
              page_state (fold dispatch (eventStream b ?url) ?w0))"
    using assms by (simp add: waitForEvents_def Let_def)
  show "fst (waitForEvents e b baseUrl rid s) = firstOutcome (eventStream b ?url)"
    unfolding e using fold_dispatch[OF w, of "eventStream b ?url"] by simp
  show "calls (snd (waitForEvents e b baseUrl rid s)) =
        calls s @ NewEventSource ?url # streamCalls (eventStream b ?url)"
    unfolding e using fold_dispatch[OF w, of "eventStream b ?url"] by simp
qed

lemma find_terminal_cases:
  obtains (pending) "find terminalEvent evs = None" "firstOutcome evs = None" "streamCalls evs = []"
  | (completed) "find terminalEvent evs = Some SseCompleted" "firstOutcome evs = Some (Inr ())"
      "streamCalls evs = [CloseEventSource]"
  | (failed) parsed err where "find terminalEvent evs = Some (SseError parsed)"
      "firstOutcome evs = Some (Inl err)" "streamCalls evs = [CloseEventSource, CloseEventSource]"
proof (cases "find terminalEvent evs")
  case None
  then show ?thesis using pending by (simp add: firstOutcome_def streamCalls_def)
next
  case (Some ev)
  then have t: "terminalEvent ev" by (auto simp: find_Some_iff)
  show ?thesis
  proof (cases ev)
    case SseOpen
    with t show ?thesis by (simp add: terminalEvent_def terminalOutcome_def)
  next
    case (SseLog parsed)
    with t show ?thesis by (simp add: terminalEvent_def terminalOutcome_def)
  next
    case (SseError parsed)
    with Some show ?thesis
      using failed[of parsed] by (simp add: firstOutcome_def streamCalls_def terminalOutcome_def)
  next
    case SseCompleted
    with Some show ?thesis
      using completed by (simp add: firstOutcome_def streamCalls_def terminalOutcome_def)
  qed
qed

lemma example_events_outcome:
  "find terminalEvent example_events = Some SseCompleted"
  "firstOutcome example_events = Some (Inr ())"
  "streamCalls example_events = [CloseEventSource]"
  by (simp_all add: example_events_def firstOutcome_def streamCalls_def terminalEvent_def
      terminalOutcome_def)



subsection \<open>The three phases of a cycle\<close>

lemma calls_appendLog [simp]:
  "calls (appendLog m l s) = calls s"
  by (simp add: appendLog_def)

lemma calls_setStatus [simp]:
  "calls (setStatus m s) = calls s"
  by (simp add: setStatus_def)

lemma calls_catchBlock [simp]:
  "calls (catchBlock err s) = calls s" "downloadButton_disabled (catchBlock err s) = downloadButton_disabled s"
  by (simp_all add: catchBlock_def)

lemma finallyBlock_fields [simp]:
  "calls (finallyBlock s) = calls s" "\<not> downloadButton_disabled (finallyBlock s)"
  by (simp_all add: finallyBlock_def)

lemma calls_showResult [simp]:
  "calls (showResult data s) = calls s"
  by (simp add: showResult_def Let_def)

lemma normalizeBackendBaseUrl_snd:
  "snd (normalizeBackendBaseUrl e v s) = s\<lparr>logEl := logEl (snd (normalizeBackendBaseUrl e v s))\<rparr>"
  by (simp add: normalizeBackendBaseUrl_def Let_def appendLog_def split: option.splits)

lemma normalizeBackendBaseUrl_fields [simp]:
  "calls (snd (normalizeBackendBaseUrl e v s)) = calls s"
  "downloadButton_disabled (snd (normalizeBackendBaseUrl e v s)) = downloadButton_disabled s"
  by (subst normalizeBackendBaseUrl_snd, simp)+

lemma normalizeBackendBaseUrl_fst:
  "fst (normalizeBackendBaseUrl e v s) = fst (normalizeBackendBaseUrl e v t)"
  by (simp add: normalizeBackendBaseUrl_def Let_def split: option.splits)

lemma createReservation_snd:
  "snd (createReservation b baseUrl watchId s) =
     s\<lparr>calls := calls s @ [Fetch (js ''POST'') (buildEndpointUrl baseUrl (js ''reservation''))
                               (Some (JObj [(js ''watch_id'', JStr watchId)]))]\<rparr>"
  by (simp add: createReservation_def Let_def split: sum.splits)

lemma createReservation_fst:
  "fst (createReservation b baseUrl watchId s) = fst (createReservation b baseUrl watchId t)"
  by (simp add: createReservation_def Let_def split: sum.splits)

lemma fetchResult_calls:
  "calls (snd (fetchResult e b baseUrl rid s)) =
     calls s @ (case encodeURIComponent e rid of
                  None \<Rightarrow> []
                | Some enc \<Rightarrow> [Fetch (js ''GET'') (buildEndpointUrl baseUrl (js ''result/'' @ enc)) None])"
  by (simp add: fetchResult_def Let_def split: sum.splits option.splits)

lemma waitForEvents_disabled [simp]:
  "downloadButton_disabled (snd (waitForEvents e b baseUrl rid s)) = downloadButton_disabled s"
proof (cases "encodeURIComponent e rid")
  case None
  then show ?thesis by (simp add: waitForEvents_def)
next
  case (Some enc)
  let ?url = "buildEndpointUrl baseUrl (js ''events/'' @ enc)"
  let ?w0 = "\<lparr>page_state = s\<lparr>calls := calls s @ [NewEventSource ?url]\<rparr>, closed = False, settled = None\<rparr>"
  have w: "\<not> closed ?w0" "settled ?w0 = None" by simp_all
  show ?thesis
    using Some fold_dispatch[OF w, of "eventStream b ?url"]
    by (simp add: waitForEvents_def Let_def)
qed

lemma cycleStart_fields [simp]:
  "calls (cycleStart e s) = calls s" "downloadButton_disabled (cycleStart e s)"
  by (simp_all add: cycleStart_def)

lemma reservation_click_unfold:
  assumes "trim (watchIdInput s) \<noteq> []"
  shows "reservation_click e b s =
     (case createReservation b (cycleBaseUrl e s) (trim (watchIdInput s)) (cycleStart e s) of
        (Inl err, s4) \<Rightarrow> finallyBlock (catchBlock err s4)
      | (Inr reservationId, s4) \<Rightarrow>
          (case waitForEvents e b (cycleBaseUrl e s) reservationId
                  (setStatus [Lit (js ''Waiting for backend events...'')]
                     (appendLog [Lit (js ''Frontend: Reservation created (''), Val reservationId,
                                 Lit (js '').'')] ''info'' s4)) of
             (None, s7) \<Rightarrow> s7
           | (Some (Inl err), s7) \<Rightarrow> finallyBlock (catchBlock err s7)
           | (Some (Inr u), s7) \<Rightarrow>
               (case fetchResult e b (cycleBaseUrl e s) reservationId
                       (setStatus [Lit (js ''Fetching final subtitle result...'')] s7) of
                  (Inl err, s9) \<Rightarrow> finallyBlock (catchBlock err s9)
                | (Inr data, s9) \<Rightarrow> finallyBlock (showResult data s9))))"
proof -
  let ?s1 = "s\<lparr>fullText := JStr [], latestText := JStr [], copyButton_disabled := True,
             copyPromptButton_disabled :=
               (case copyPromptButton_disabled s of None \<Rightarrow> None | Some d \<Rightarrow> Some True),
             downloadButton_disabled := True\<rparr>"
  obtain baseUrl s2 where
    n: "normalizeBackendBaseUrl e (case backendAddressInput ?s1 of None \<Rightarrow> [] | Some v \<Rightarrow> v) ?s1
          = (baseUrl, s2)"
    by fastforce
  have v: "(case backendAddressInput ?s1 of None \<Rightarrow> [] | Some v \<Rightarrow> v) = backendAddressValue s"
    by (simp add: backendAddressValue_def)
  have "baseUrl = fst (normalizeBackendBaseUrl e (backendAddressValue s) ?s1)"
    using n unfolding v by simp
  then have bu: "baseUrl = cycleBaseUrl e s"
    unfolding cycleBaseUrl_def using normalizeBackendBaseUrl_fst[of e "backendAddressValue s" ?s1 s]
    by simp
  have "s2 = snd (normalizeBackendBaseUrl e (backendAddressValue s) ?s1)"
    using n unfolding v by simp
  then have cs: "setStatus [Lit (js ''Creating reservation...'')] s2 = cycleStart e s"
    by (simp add: cycleStart_def)
  have "reservation_click e b s =
     (case createReservation b baseUrl (trim (watchIdInput s))
             (setStatus [Lit (js ''Creating reservation...'')] s2) of
        (Inl err, s4) \<Rightarrow> finallyBlock (catchBlock err s4)
      | (Inr reservationId, s4) \<Rightarrow>
          (case waitForEvents e b baseUrl reservationId
                  (setStatus [Lit (js ''Waiting for backend events...'')]
                     (appendLog [Lit (js ''Frontend: Reservation created (''), Val reservationId,
                                 Lit (js '').'')] ''info'' s4)) of
             (None, s7) \<Rightarrow> s7
           | (Some (Inl err), s7) \<Rightarrow> finallyBlock (catchBlock err s7)
           | (Some (Inr u), s7) \<Rightarrow>
               (case fetchResult e b baseUrl reservationId
                       (setStatus [Lit (js ''Fetching final subtitle result...'')] s7) of
                  (Inl err, s9) \<Rightarrow> finallyBlock (catchBlock err s9)
                | (Inr data, s9) \<Rightarrow> finallyBlock (showResult data s9))))"
    unfolding reservation_click_def sanitizeWatchId_def Let_def n
    using assms by simp
  then show ?thesis
    unfolding bu cs .
qed

lemma reservation_click_cycle:
  assumes "trim (watchIdInput s) \<noteq> []"
  shows "calls (reservation_click e b s) = calls s @ cycleCalls e b s"
    and "downloadButton_disabled (reservation_click e b s) = cyclePending e b s"
proof -
  let ?base = "cycleBaseUrl e s"
  let ?w = "trim (watchIdInput s)"
  let ?post = "Fetch (js ''POST'') (buildEndpointUrl ?base (js ''reservation''))
                 (Some (JObj [(js ''watch_id'', JStr ?w)]))"
  obtain r s4 where cr: "createReservation b ?base ?w (cycleStart e s) = (r, s4)"
    by fastforce
  have r: "fst (createReservation b ?base ?w s) = r"
    using cr createReservation_fst[of b ?base ?w s "cycleStart e s"] by simp
  have s4: "calls s4 = calls s @ [?post]" "downloadButton_disabled s4"
    using cr createReservation_snd[of b ?base ?w "cycleStart e s"] by auto
  have u: "reservation_click e b s =
     (case (r, s4) of
        (Inl err, s4) \<Rightarrow> finallyBlock (catchBlock err s4)
      | (Inr reservationId, s4) \<Rightarrow>
          (case waitForEvents e b ?base reservationId
                  (setStatus [Lit (js ''Waiting for backend events...'')]
                     (appendLog [Lit (js ''Frontend: Reservation created (''), Val reservationId,
                                 Lit (js '').'')] ''info'' s4)) of
             (None, s7) \<Rightarrow> s7
           | (Some (Inl err), s7) \<Rightarrow> finallyBlock (catchBlock err s7)
           | (Some (Inr u), s7) \<Rightarrow>
               (case fetchResult e b ?base reservationId
                       (setStatus [Lit (js ''Fetching final subtitle result...'')] s7) of
                  (Inl err, s9) \<Rightarrow> finallyBlock (catchBlock err s9)
                | (Inr data, s9) \<Rightarrow> finallyBlock (showResult data s9))))"
    using reservation_click_unfold[OF assms, of e b] unfolding cr .
  show "calls (reservation_click e b s) = calls s @ cycleCalls e b s"
    and "downloadButton_disabled (reservation_click e b s) = cyclePending e b s"
  proof (atomize (full), cases r)
    case (Inl err)
    then show "calls (reservation_click e b s) = calls s @ cycleCalls e b s \<and>
               downloadButton_disabled (reservation_click e b s) = cyclePending e b s"
      using u s4 r assms by (simp add: cycleCalls_def cyclePending_def)
  next
    case (Inr rid)
    let ?s6 = "setStatus [Lit (js ''Waiting for backend events...'')]
                 (appendLog [Lit (js ''Frontend: Reservation created (''), Val rid,
                             Lit (js '').'')] ''info'' s4)"
    obtain p s7 where wf: "waitForEvents e b ?base rid ?s6 = (p, s7)"
      by fastforce
    have u2: "reservation_click e b s =
       (case (p, s7) of
             (None, s7) \<Rightarrow> s7
           | (Some (Inl err), s7) \<Rightarrow> finallyBlock (catchBlock err s7)
           | (Some (Inr u), s7) \<Rightarrow>
               (case fetchResult e b ?base rid
                       (setStatus [Lit (js ''Fetching final subtitle result...'')] s7) of
                  (Inl err, s9) \<Rightarrow> finallyBlock (catchBlock err s9)
                | (Inr data, s9) \<Rightarrow> finallyBlock (showResult data s9)))"
      using u Inr wf by simp
    have d7: "downloadButton_disabled s7"
      using wf waitForEvents_disabled[of e b ?base rid ?s6] s4 by simp
    show "calls (reservation_click e b s) = calls s @ cycleCalls e b s \<and>
          downloadButton_disabled (reservation_click e b s) = cyclePending e b s"
    proof (cases "encodeURIComponent e rid")
      case None
      then have "(p, s7) = (Some (Inl URIError), ?s6)"
        using wf by (simp add: waitForEvents_def)
      then show ?thesis
        using u2 s4 r Inr None assms by (simp add: cycleCalls_def cyclePending_def)
    next
      case (Some enc)
      let ?evs = "eventStream b (buildEndpointUrl ?base (js ''events/'' @ enc))"
      have p: "p = firstOutcome ?evs"
        and c7: "calls s7 = calls s @ ?post # NewEventSource (buildEndpointUrl ?base (js ''events/'' @ enc))
                              # streamCalls ?evs"
        using waitForEvents_result[OF Some, of b ?base ?s6] wf s4 by simp_all
      show ?thesis
      proof (cases ?evs rule: find_terminal_cases)
        case pending
        then show ?thesis
          using u2 p c7 d7 r Inr Some assms by (simp add: cycleCalls_def cyclePending_def)
      next
        case (failed parsed err)
        then show ?thesis
          using u2 p c7 r Inr Some assms by (simp add: cycleCalls_def cyclePending_def)
      next
        case completed
        obtain q s9 where fr: "fetchResult e b ?base rid
              (setStatus [Lit (js ''Fetching final subtitle result...'')] s7) = (q, s9)"
          by fastforce
        have c9: "calls s9 = calls s7 @ [Fetch (js ''GET'') (buildEndpointUrl ?base (js ''result/'' @ enc)) None]"
          using fetchResult_calls[of e b ?base rid "setStatus [Lit (js ''Fetching final subtitle result...'')] s7"]
            fr Some by simp
        have "reservation_click e b s =
                (case q of Inl err \<Rightarrow> finallyBlock (catchBlock err s9)
                 | Inr data \<Rightarrow> finallyBlock (showResult data s9))"
          using u2 p completed fr by simp
        then show ?thesis
          using c9 c7 completed r Inr Some assms
          by (cases q) (simp_all add: cycleCalls_def cyclePending_def)
      qed
    qed
  qed
qed

text \<open>
  C3.  The network operations a click starts, in order.  With a non-empty watch id the
  handler first posts the reservation.  Only when \<open>createReservation\<close> has returned an id is
  the event source opened, for that id.  Only when the first terminal event of the stream
  is \<open>completed\<close> is the result fetched, for the same id, after the source has been closed;
  when the stream ends with an \<open>error\<close> event (or the connection fails) the source is closed
  and no result is fetched, and while the stream has delivered no terminal event nothing
  more is started.
\<close>

theorem reservation_phases:
  "calls (reservation_click e b s) =
     calls s @
     (if trim (watchIdInput s) = [] then []
      else Fetch (js ''POST'') (buildEndpointUrl (cycleBaseUrl e s) (js ''reservation''))
             (Some (JObj [(js ''watch_id'', JStr (trim (watchIdInput s)))]))
         # (case fst (createReservation b (cycleBaseUrl e s) (trim (watchIdInput s)) s) of
              Inl err \<Rightarrow> []
            | Inr reservationId \<Rightarrow>
                (case encodeURIComponent e reservationId of
                   None \<Rightarrow> []
                 | Some enc \<Rightarrow>
                     NewEventSource (buildEndpointUrl (cycleBaseUrl e s) (js ''events/'' @ enc))
                     # (case find terminalEvent
                               (eventStream b (buildEndpointUrl (cycleBaseUrl e s) (js ''events/'' @ enc))) of
                          None \<Rightarrow> []
                        | Some SseCompleted \<Rightarrow>
                            [CloseEventSource,
                             Fetch (js ''GET'')
                               (buildEndpointUrl (cycleBaseUrl e s) (js ''result/'' @ enc)) None]
                        | Some other \<Rightarrow> [CloseEventSource, CloseEventSource]))))"
proof (cases "trim (watchIdInput s) = []")
  case True
  then show ?thesis
    by (simp add: reservation_click_def sanitizeWatchId_def)
next
  case False
  then show ?thesis
    using reservation_click_cycle(1)[OF False, of e b] by (simp add: cycleCalls_def)
qed

text \<open>
  The reservation client and the download button: after a click with a watch id the
  button is disabled only while the cycle is suspended on a stream that has not delivered
  its terminal event; every way the cycle ends enables it again.
\<close>

lemma reservation_click_reenables:
  "downloadButton_disabled (reservation_click e b s) =
     (if trim (watchIdInput s) = [] then downloadButton_disabled s else cyclePending e b s)"
proof (cases "trim (watchIdInput s) = []")
  case True
  then show ?thesis
    by (simp add: reservation_click_def sanitizeWatchId_def)
next
  case False
  then show ?thesis
    using reservation_click_cycle(2)[OF False, of e b] by simp
qed

text \<open>The example backend: a complete cycle.\<close>

lemma example_reservation_facts:
  "trim (watchIdInput example_reservation_page) = js ''dQw4w9WgXcQ''"
  "calls example_reservation_page = []"
  "cycleBaseUrl example_env example_reservation_page = js ''http://localhost:8080''"
  by (simp_all add: example_reservation_page_def example_page_def page.defs trim_example
      cycleBaseUrl_def backendAddressValue_def normalizeBackendBaseUrl_def defaultBackendAddress_def
      example_env_def trim_Nil)

lemma example_reservation_created:
  "fst (createReservation example_backend baseUrl watchId s) = Inr (JStr (js ''r1''))"
  using r1_nonempty
  by (simp add: createReservation_def example_backend_def Let_def ok_def nullish_def)

lemma reservation_phases_example:
  "calls (reservation_click example_env example_backend example_reservation_page) =
     [Fetch (js ''POST'') (buildEndpointUrl (js ''http://localhost:8080'') (js ''reservation''))
        (Some (JObj [(js ''watch_id'', JStr (js ''dQw4w9WgXcQ''))])),
      NewEventSource (buildEndpointUrl (js ''http://localhost:8080'') (js ''events/'' @ js ''r1'')),
      CloseEventSource,
      Fetch (js ''GET'') (buildEndpointUrl (js ''http://localhost:8080'') (js ''result/'' @ js ''r1'')) None]"
  and "\<not> downloadButton_disabled
          (reservation_click example_env example_backend example_reservation_page)"
proof -
  have ev: "eventStream example_backend u = example_events" for u
    by (simp add: example_backend_def)
  have ne: "trim (watchIdInput example_reservation_page) \<noteq> []"
    using example_reservation_facts(1) example_nonempty by simp
  show "calls (reservation_click example_env example_backend example_reservation_page) =
     [Fetch (js ''POST'') (buildEndpointUrl (js ''http://localhost:8080'') (js ''reservation''))
        (Some (JObj [(js ''watch_id'', JStr (js ''dQw4w9WgXcQ''))])),
      NewEventSource (buildEndpointUrl (js ''http://localhost:8080'') (js ''events/'' @ js ''r1'')),
      CloseEventSource,
      Fetch (js ''GET'') (buildEndpointUrl (js ''http://localhost:8080'') (js ''result/'' @ js ''r1'')) None]"
    unfolding reservation_click_cycle(1)[OF ne] cycleCalls_def
    using ne
    by (simp add: example_reservation_facts example_reservation_created example_env_fields ev
        example_events_outcome)
  show "\<not> downloadButton_disabled
          (reservation_click example_env example_backend example_reservation_page)"
    unfolding reservation_click_cycle(2)[OF ne] cyclePending_def
    by (simp add: example_reservation_facts example_reservation_created example_env_fields ev
        example_events_outcome)
qed

section \<open>Persistence of the fields\<close>





section \<open>A click without a watch id\<close>

text \<open>
  C4.  When the trimmed input is empty, the click handler of each client only sets the
  status (and, in the clients that log it, appends the log line): no socket is created, no
  frame sent, no listener added, no reservation made, and the buttons and the result are as
  they were.
\<close>

theorem empty_input_click:
  "(trim (watchIdInput s) = [] \<longrightarrow>
      downloadButton_click e s =
        s\<lparr>statusEl := [Lit (js ''Status: ''), Lit (js ''Please enter a watch ID or URL'')],
          logEl := logEl s @ [(js ''info'', [Lit (js ''Frontend: ''), Lit (js ''Please enter a watch ID or URL'')])]\<rparr>) \<and>
   (trim (watchIdInput r) = [] \<longrightarrow>
      reservation_click e b r =
        r\<lparr>statusEl := [Lit (js ''Status: ''), Lit (js ''Please enter a watch ID or URL'')],
          logEl := logEl r @ [(js ''info'', [Lit (js ''Frontend: ''), Lit (js ''Please enter a watch ID or URL'')])]\<rparr>) \<and>
   (trim (videoIdInput p) = [] \<longrightarrow>
      downloadBtn_click p = p\<lparr>statusEl' := js ''Status: '' @ js ''Video ID required''\<rparr>)"
  by (simp add: downloadButton_click_def reservation_click_def downloadBtn_click_def
      sanitizeWatchId_def setStatus_def appendLog_def setStatus'_def Let_def)

text \<open>An instance: an input of two spaces, on each example page.\<close>

theorem empty_input_click_witness:
  "trim (js ''  '') = [] \<and>
   downloadButton_click example_env (example_app\<lparr>watchIdInput := js ''  ''\<rparr>) =
     example_app
       \<lparr>watchIdInput := js ''  '',
        statusEl := [Lit (js ''Status: ''), Lit (js ''Please enter a watch ID or URL'')],
        logEl := logEl example_app @
          [(js ''info'', [Lit (js ''Frontend: ''), Lit (js ''Please enter a watch ID or URL'')])]\<rparr> \<and>
   reservation_click example_env (answering 200 None)
       (example_reservation_page\<lparr>watchIdInput := js ''  ''\<rparr>) =
     example_reservation_page
       \<lparr>watchIdInput := js ''  '',
        statusEl := [Lit (js ''Status: ''), Lit (js ''Please enter a watch ID or URL'')],
        logEl := logEl example_reservation_page @
          [(js ''info'', [Lit (js ''Frontend: ''), Lit (js ''Please enter a watch ID or URL'')])]\<rparr> \<and>
   downloadBtn_click (example_preview_page\<lparr>videoIdInput := js ''  ''\<rparr>) =
     example_preview_page
       \<lparr>videoIdInput := js ''  '', statusEl' := js ''Status: '' @ js ''Video ID required''\<rparr>"
  using trim_spaces
    empty_input_click[of "example_app\<lparr>watchIdInput := js ''  ''\<rparr>" example_env
      "example_reservation_page\<lparr>watchIdInput := js ''  ''\<rparr>" "answering 200 None"
      "example_preview_page\<lparr>videoIdInput := js ''  ''\<rparr>"]
  by simp


end
